theory Spec2Isabelle
  imports Main
begin

section \<open>JavaScript numbers and strings\<close>

text \<open>
  The sources are TypeScript. A JavaScript string is modelled as a \<^typ>\<open>string\<close>
  whose characters are the code units \<open>0x00..0xFF\<close>; a JavaScript number is an
  integer or \<open>NaN\<close> (the code under study never produces a fraction or an
  infinity from an integer argument).
\<close>

datatype jsnum = NaN | Num int

text \<open>\<open>Number.prototype.toString(16)\<close> and \<open>BigInt.prototype.toString(16)\<close> on an
  integer: lower-case digits, most significant first, a leading \<open>-\<close> for a negative
  value.\<close>

definition hexDigit :: "nat \<Rightarrow> char" where
  "hexDigit d = ''0123456789abcdef'' ! (d mod 16)"

fun natToString16 :: "nat \<Rightarrow> string" where
  "natToString16 n =
     (if n < 16 then [hexDigit n] else natToString16 (n div 16) @ [hexDigit (n mod 16)])"

declare natToString16.simps [simp del]

fun toString16 :: "int \<Rightarrow> string" where
  "toString16 i = (if i < 0 then CHR ''-'' # natToString16 (nat (- i)) else natToString16 (nat i))"

text \<open>\<open>String(n)\<close> of an integer, as \<open>JSON.stringify\<close> and template strings print it.\<close>

definition decDigit :: "nat \<Rightarrow> char" where
  "decDigit d = ''0123456789'' ! (d mod 10)"

fun natToString10 :: "nat \<Rightarrow> string" where
  "natToString10 n =
     (if n < 10 then [decDigit n] else natToString10 (n div 10) @ [decDigit (n mod 10)])"

declare natToString10.simps [simp del]

fun toString10 :: "int \<Rightarrow> string" where
  "toString10 i = (if i < 0 then CHR ''-'' # natToString10 (nat (- i)) else natToString10 (nat i))"

text \<open>\<open>s.padStart(n, c)\<close> for a one-character filler, \<open>s.repeat(n)\<close>,
  \<open>s.startsWith(p)\<close>, \<open>s.endsWith(p)\<close>, \<open>s.includes(p)\<close>, \<open>s.substring(0, n)\<close>
  and \<open>s.replace(p, r)\<close> for a string pattern (the first occurrence only).\<close>

fun padStart :: "nat \<Rightarrow> char \<Rightarrow> string \<Rightarrow> string" where
  "padStart n c s = replicate (n - length s) c @ s"

fun repeat :: "string \<Rightarrow> nat \<Rightarrow> string" where
  "repeat s n = concat (replicate n s)"

fun startsWith :: "string \<Rightarrow> string \<Rightarrow> bool" where
  "startsWith s p = (take (length p) s = p)"

fun endsWith :: "string \<Rightarrow> string \<Rightarrow> bool" where
  "endsWith s p = (length p \<le> length s \<and> drop (length s - length p) s = p)"

fun includesStr :: "string \<Rightarrow> string \<Rightarrow> bool" where
  "includesStr [] p = (p = [])"
| "includesStr (c # cs) p = (if startsWith (c # cs) p then True else includesStr cs p)"

fun substring0 :: "string \<Rightarrow> nat \<Rightarrow> string" where
  "substring0 s n = take n s"

fun replaceFirst :: "string \<Rightarrow> string \<Rightarrow> string \<Rightarrow> string" where
  "replaceFirst [] p r = (if p = [] then r else [])"
| "replaceFirst (c # cs) p r =
     (if startsWith (c # cs) p then r @ drop (length p) (c # cs)
      else c # replaceFirst cs p r)"

text \<open>\<open>parseInt(s, 16)\<close>: leading white space is skipped, then an optional sign, then
  an optional \<open>0x\<close> or \<open>0X\<close>; the longest run of hexadecimal digits that follows is
  the value, and \<open>NaN\<close> when that run is empty.\<close>

fun isWhiteSpace :: "char \<Rightarrow> bool" where
  "isWhiteSpace c = (of_char c \<in> {9, 10, 11, 12, 13, 32, 160 :: nat})"

fun hexValue :: "char \<Rightarrow> nat option" where
  "hexValue c =
     (let k = (of_char c :: nat) in
      if 48 \<le> k \<and> k \<le> 57 then Some (k - 48)
      else if 97 \<le> k \<and> k \<le> 102 then Some (k - 87)
      else if 65 \<le> k \<and> k \<le> 70 then Some (k - 55)
      else None)"

fun hexRun :: "string \<Rightarrow> nat list" where
  "hexRun [] = []"
| "hexRun (c # cs) = (case hexValue c of None \<Rightarrow> [] | Some d \<Rightarrow> d # hexRun cs)"

fun hexNumber :: "nat list \<Rightarrow> nat" where
  "hexNumber ds = foldl (\<lambda>acc d. 16 * acc + d) 0 ds"

fun parseInt16 :: "string \<Rightarrow> jsnum" where
  "parseInt16 s =
     (let s1 = dropWhile isWhiteSpace s;
          negative = startsWith s1 ''-'';
          s2 = (if startsWith s1 ''-'' then drop 1 s1
                else if startsWith s1 ''+'' then drop 1 s1 else s1);
          s3 = (if startsWith s2 ''0x'' then drop 2 s2
                else if startsWith s2 ''0X'' then drop 2 s2 else s2);
          ds = hexRun s3
      in if ds = [] then NaN
         else if negative then Num (- int (hexNumber ds)) else Num (int (hexNumber ds)))"

text \<open>\<open>s.toLowerCase()\<close> on the code units \<open>0x00..0xFF\<close>: the letters \<open>A..Z\<close> and the
  accented capitals \<open>0xC0..0xDE\<close> (but the multiplication sign \<open>0xD7\<close>) move up by 32.\<close>

fun lowerChar :: "char \<Rightarrow> char" where
  "lowerChar c =
     (let k = (of_char c :: nat) in
      if 65 \<le> k \<and> k \<le> 90 then char_of (k + 32)
      else if 192 \<le> k \<and> k \<le> 222 \<and> k \<noteq> 215 then char_of (k + 32)
      else c)"

fun toLowerCase :: "string \<Rightarrow> string" where
  "toLowerCase s = map lowerChar s"

text \<open>A template string prints a number as \<open>String(n)\<close>.\<close>

fun numberToString :: "jsnum \<Rightarrow> string" where
  "numberToString NaN = ''NaN''"
| "numberToString (Num i) = toString10 i"

section \<open>JavaScript values\<close>

text \<open>
  The values the validators inspect. An object is the list of its own properties, name
  and value, a name bound once; a function value is opaque. Arrays, symbols and bigints
  do not occur.
\<close>

datatype jsval =
    JUndefined
  | JNull
  | JBoolean bool
  | JNumber jsnum
  | JString string
  | JFunction
  | JObject "(string \<times> jsval) list"

fun typeof :: "jsval \<Rightarrow> string" where
  "typeof JUndefined = ''undefined''"
| "typeof JNull = ''object''"
| "typeof (JBoolean b) = ''boolean''"
| "typeof (JNumber n) = ''number''"
| "typeof (JString s) = ''string''"
| "typeof JFunction = ''function''"
| "typeof (JObject ps) = ''object''"

text \<open>Truthiness, as \<open>!x\<close> and \<open>if (x)\<close> test it.\<close>

fun truthyVal :: "jsval \<Rightarrow> bool" where
  "truthyVal JUndefined = False"
| "truthyVal JNull = False"
| "truthyVal (JBoolean b) = b"
| "truthyVal (JNumber NaN) = False"
| "truthyVal (JNumber (Num i)) = (i \<noteq> 0)"
| "truthyVal (JString s) = (s \<noteq> [])"
| "truthyVal JFunction = True"
| "truthyVal (JObject ps) = True"

text \<open>\<open>Object.getOwnPropertyNames(obj)\<close>, \<open>name in obj\<close> and \<open>obj[name]\<close>. The objects
  under study are plain: none of the names looked up lives on \<open>Object.prototype\<close>.\<close>

fun getOwnPropertyNames :: "jsval \<Rightarrow> string list" where
  "getOwnPropertyNames (JObject ps) = remdups (map fst ps)"
| "getOwnPropertyNames v = []"

fun hasOwn :: "string \<Rightarrow> jsval \<Rightarrow> bool" where
  "hasOwn name (JObject ps) = (map_of ps name \<noteq> None)"
| "hasOwn name v = False"

fun getProp :: "jsval \<Rightarrow> string \<Rightarrow> jsval" where
  "getProp (JObject ps) name = (case map_of ps name of None \<Rightarrow> JUndefined | Some v \<Rightarrow> v)"
| "getProp v name = JUndefined"

section \<open>The mock instance (\<open>MockFhevmInstance\<close>)\<close>

text \<open>The fields of the class: \<open>chainId\<close>, \<open>rpcUrl\<close>, \<open>metadata\<close> (of type \<open>any\<close>),
  \<open>publicKey\<close> and \<open>publicParams\<close>.\<close>

record mock_instance =
  instChainId :: jsnum
  instRpcUrl :: string
  instMetadata :: jsval
  publicKey :: string
  publicParams :: string

text \<open>The constructor, and \<open>createFhevmMockInstance\<close>, which awaits a timer and calls it.\<close>

fun newMockFhevmInstance :: "jsnum \<Rightarrow> string \<Rightarrow> jsval \<Rightarrow> mock_instance" where
  "newMockFhevmInstance c u m =
     \<lparr> instChainId = c, instRpcUrl = u, instMetadata = m,
       publicKey = ''0x'' @ repeat ''mock'' 16,
       publicParams = ''0x'' @ repeat ''params'' 32 \<rparr>"

fun createFhevmMockInstance :: "jsnum \<Rightarrow> string \<Rightarrow> jsval \<Rightarrow> mock_instance" where
  "createFhevmMockInstance c u m = newMockFhevmInstance c u m"

text \<open>The instance made for chain 31337 at the default URL, with three well-formed
  addresses as metadata.\<close>

definition metadata0 :: jsval where
  "metadata0 = JObject
     [(''ACLAddress'', JString ''0x50157CFfD6bBFA2DECe204a89ec419c23ef5755D''),
      (''InputVerifierAddress'', JString ''0x901F8942346f7AB3a01F6D7613119Bca447Bb030''),
      (''KMSVerifierAddress'', JString ''0x1364cBBf2cDF5032C47d8226a6f6FBD2AFCDacAC'')]"

definition inst0 :: mock_instance where
  "inst0 = createFhevmMockInstance (Num 31337) ''http://localhost:8545'' metadata0"

text \<open>The encryption methods; none of them reads a field of the instance.\<close>

fun encrypt8 :: "mock_instance \<Rightarrow> int \<Rightarrow> string" where
  "encrypt8 inst v = ''0x'' @ padStart 64 CHR ''0'' (toString16 v)"

fun encrypt16 :: "mock_instance \<Rightarrow> int \<Rightarrow> string" where
  "encrypt16 inst v = ''0x'' @ padStart 64 CHR ''0'' (toString16 v)"

fun encrypt32 :: "mock_instance \<Rightarrow> int \<Rightarrow> string" where
  "encrypt32 inst v = ''0x'' @ padStart 64 CHR ''0'' (toString16 v)"

fun encrypt64 :: "mock_instance \<Rightarrow> int \<Rightarrow> string" where
  "encrypt64 inst v = ''0x'' @ padStart 64 CHR ''0'' (toString16 v)"

fun encryptBool :: "mock_instance \<Rightarrow> bool \<Rightarrow> string" where
  "encryptBool inst v = ''0x'' @ repeat (if v then ''01'' else ''00'') 32"

text \<open>\<open>decrypt(ciphertext, type)\<close> resolves to a boolean for the two boolean type names
  and to a number otherwise: the number parsed from the first eight characters that
  follow the removed \<open>0x\<close>.\<close>

datatype decrypted = DBool bool | DNumber jsnum

fun decrypt :: "mock_instance \<Rightarrow> string \<Rightarrow> string \<Rightarrow> decrypted" where
  "decrypt inst ciphertext ty =
     (if ty = ''bool'' then DBool (endsWith ciphertext ''01'')
      else if ty = ''ebool'' then DBool (endsWith ciphertext ''01'')
      else let hex = replaceFirst ciphertext ''0x'' [];
               v = parseInt16 (substring0 hex 8)
           in DNumber v)"

section \<open>The encrypted-input builder (\<open>MockFhevmEncryptedInput\<close>)\<close>

text \<open>Errors are values. \<open>Error\<close> carries its message, \<open>FhevmError\<close> its code and
  message (its \<open>cause\<close> is not kept); \<open>TypeError\<close> is what the JavaScript runtime
  itself throws; \<open>ThrownValue\<close> is a thrown value that is not an \<open>Error\<close> object.\<close>

datatype js_error =
    Error string
  | TypeError string
  | FhevmError string string
  | FhevmAbortError string
  | ThrownValue

text \<open>An entry of \<open>this.inputs\<close> is \<open>{ value, type }\<close>. The \<open>add\<close> methods are typed:
  a \<open>number\<close> for 8, 16 and 32 bits, a \<open>bigint\<close> for 64 bits, a \<open>boolean\<close>.\<close>

datatype input_value = VNumber int | VBigInt int | VBoolean bool

record input_entry =
  inputValue :: input_value
  inputType :: string

record encrypted_input =
  contractAddress :: string
  userAddress :: string
  inputs :: "input_entry list"

fun createEncryptedInput :: "mock_instance \<Rightarrow> string \<Rightarrow> string \<Rightarrow> encrypted_input" where
  "createEncryptedInput inst c u = \<lparr> contractAddress = c, userAddress = u, inputs = [] \<rparr>"

fun push :: "encrypted_input \<Rightarrow> input_entry \<Rightarrow> encrypted_input" where
  "push b e = b\<lparr> inputs := inputs b @ [e] \<rparr>"

fun add8 :: "encrypted_input \<Rightarrow> int \<Rightarrow> encrypted_input" where
  "add8 b v = push b \<lparr> inputValue = VNumber v, inputType = ''euint8'' \<rparr>"

fun add16 :: "encrypted_input \<Rightarrow> int \<Rightarrow> encrypted_input" where
  "add16 b v = push b \<lparr> inputValue = VNumber v, inputType = ''euint16'' \<rparr>"

fun add32 :: "encrypted_input \<Rightarrow> int \<Rightarrow> encrypted_input" where
  "add32 b v = push b \<lparr> inputValue = VNumber v, inputType = ''euint32'' \<rparr>"

fun add64 :: "encrypted_input \<Rightarrow> int \<Rightarrow> encrypted_input" where
  "add64 b v = push b \<lparr> inputValue = VBigInt v, inputType = ''euint64'' \<rparr>"

fun addBool :: "encrypted_input \<Rightarrow> bool \<Rightarrow> encrypted_input" where
  "addBool b v = push b \<lparr> inputValue = VBoolean v, inputType = ''ebool'' \<rparr>"

text \<open>The body of the \<open>for\<close> loop of \<open>encrypt()\<close>: the handle of one entry.
  \<open>input.value ? ... : ...\<close> tests truthiness, \<open>input.value.toString(16)\<close> prints a
  number or a bigint in base 16 and a boolean as its name.\<close>

fun truthy :: "input_value \<Rightarrow> bool" where
  "truthy (VNumber i) = (i \<noteq> 0)"
| "truthy (VBigInt i) = (i \<noteq> 0)"
| "truthy (VBoolean b) = b"

fun valueToString16 :: "input_value \<Rightarrow> string" where
  "valueToString16 (VNumber i) = toString16 i"
| "valueToString16 (VBigInt i) = toString16 i"
| "valueToString16 (VBoolean b) = (if b then ''true'' else ''false'')"

fun handleOf :: "input_entry \<Rightarrow> string" where
  "handleOf inp =
     (if inputType inp = ''ebool''
      then ''0x'' @ repeat (if truthy (inputValue inp) then ''01'' else ''00'') 32
      else ''0x'' @ padStart 64 CHR ''0'' (valueToString16 (inputValue inp)))"

text \<open>The loop itself: entries are visited from index 0 and each handle is pushed.\<close>

fun pushHandles :: "string list \<Rightarrow> input_entry list \<Rightarrow> string list" where
  "pushHandles handles [] = handles"
| "pushHandles handles (inp # rest) = pushHandles (handles @ [handleOf inp]) rest"

text \<open>\<open>JSON.stringify(proofData)\<close>. A string is quoted with the escapes of the
  standard; a number prints in decimal, a boolean as its name; a \<open>bigint\<close> makes
  \<open>JSON.stringify\<close> throw a \<open>TypeError\<close>. Keys appear in the order the object
  literal lists them.\<close>

fun hex4 :: "nat \<Rightarrow> string" where
  "hex4 k = [hexDigit (k div 4096), hexDigit (k div 256), hexDigit (k div 16), hexDigit k]"

fun jsonEscape :: "char \<Rightarrow> string" where
  "jsonEscape c =
     (let k = (of_char c :: nat) in
      if k = 34 then [CHR 0x5C, CHR 0x22]
      else if k = 92 then [CHR 0x5C, CHR 0x5C]
      else if k = 8 then [CHR 0x5C, CHR ''b'']
      else if k = 12 then [CHR 0x5C, CHR ''f'']
      else if k = 10 then [CHR 0x5C, CHR ''n'']
      else if k = 13 then [CHR 0x5C, CHR ''r'']
      else if k = 9 then [CHR 0x5C, CHR ''t'']
      else if k < 32 then [CHR 0x5C, CHR ''u''] @ hex4 k
      else [c])"

fun jsonString :: "string \<Rightarrow> string" where
  "jsonString s = [CHR 0x22] @ concat (map jsonEscape s) @ [CHR 0x22]"

definition bigIntTypeError :: js_error where
  "bigIntTypeError = TypeError ''Do not know how to serialize a BigInt''"

fun jsonValue :: "input_value \<Rightarrow> js_error + string" where
  "jsonValue (VNumber i) = Inr (toString10 i)"
| "jsonValue (VBigInt i) = Inl bigIntTypeError"
| "jsonValue (VBoolean b) = Inr (if b then ''true'' else ''false'')"

fun jsonEntry :: "input_entry \<Rightarrow> js_error + string" where
  "jsonEntry inp =
     (case jsonValue (inputValue inp) of
        Inl e \<Rightarrow> Inl e
      | Inr v \<Rightarrow> Inr (''{'' @ jsonString ''value'' @ '':'' @ v @ '','' @
                      jsonString ''type'' @ '':'' @ jsonString (inputType inp) @ ''}''))"

fun jsonEntries :: "input_entry list \<Rightarrow> js_error + string list" where
  "jsonEntries [] = Inr []"
| "jsonEntries (inp # rest) =
     (case jsonEntry inp of
        Inl e \<Rightarrow> Inl e
      | Inr j \<Rightarrow> (case jsonEntries rest of Inl e \<Rightarrow> Inl e | Inr js \<Rightarrow> Inr (j # js)))"

fun joinComma :: "string list \<Rightarrow> string" where
  "joinComma [] = []"
| "joinComma [j] = j"
| "joinComma (j # k # js) = j @ '','' @ joinComma (k # js)"

fun stringifyProofData :: "encrypted_input \<Rightarrow> nat \<Rightarrow> js_error + string" where
  "stringifyProofData b now =
     (case jsonEntries (inputs b) of
        Inl e \<Rightarrow> Inl e
      | Inr js \<Rightarrow>
          Inr (''{'' @ jsonString ''contractAddress'' @ '':'' @ jsonString (contractAddress b) @
               '','' @ jsonString ''userAddress'' @ '':'' @ jsonString (userAddress b) @
               '','' @ jsonString ''inputs'' @ '':['' @ joinComma js @ '']'' @
               '','' @ jsonString ''timestamp'' @ '':'' @ toString10 (int now) @ ''}''))"

text \<open>\<open>Buffer.from(s).toString('hex')\<close>: the UTF-8 bytes of the string, two lower-case
  hexadecimal digits each. A code unit below \<open>0x80\<close> is one byte, one from \<open>0x80\<close> to
  \<open>0xFF\<close> two.\<close>

fun utf8 :: "char \<Rightarrow> nat list" where
  "utf8 c =
     (let k = (of_char c :: nat) in
      if k < 128 then [k] else [192 + k div 64, 128 + k mod 64])"

fun byteHex :: "nat \<Rightarrow> string" where
  "byteHex b = [hexDigit (b div 16), hexDigit b]"

fun bufferHex :: "string \<Rightarrow> string" where
  "bufferHex s = concat (map byteHex (concat (map utf8 s)))"

text \<open>\<open>encrypt()\<close>, with the value \<open>Date.now()\<close> returns as a parameter. The method
  assigns to no field of the builder, so the builder after the call is the builder
  before it. The promise it returns is rejected when \<open>JSON.stringify\<close> throws.\<close>

record encrypt_result =
  handles :: "string list"
  inputProof :: string

fun encrypt :: "encrypted_input \<Rightarrow> nat \<Rightarrow> js_error + encrypt_result" where
  "encrypt b now =
     (let handles = pushHandles [] (inputs b) in
      case stringifyProofData b now of
        Inl e \<Rightarrow> Inl e
      | Inr json \<Rightarrow> Inr \<lparr> handles = handles, inputProof = ''0x'' @ bufferHex json \<rparr>)"

text \<open>The hexadecimal form of one character of the string: \<open>bufferHex\<close> is the
  concatenation of these.\<close>

fun charHex :: "char \<Rightarrow> string" where
  "charHex c = concat (map byteHex (utf8 c))"

declare bufferHex.simps [simp del] stringifyProofData.simps [simp del] encrypt.simps [simp del]
  jsonString.simps [simp del] pushHandles.simps [simp del]

text \<open>A caller drives the builder through a sequence of \<open>add\<close> calls.\<close>

datatype builder_call = Add8 int | Add16 int | Add32 int | Add64 int | AddBool bool

fun call :: "encrypted_input \<Rightarrow> builder_call \<Rightarrow> encrypted_input" where
  "call b (Add8 v) = add8 b v"
| "call b (Add16 v) = add16 b v"
| "call b (Add32 v) = add32 b v"
| "call b (Add64 v) = add64 b v"
| "call b (AddBool v) = addBool b v"

fun calls :: "encrypted_input \<Rightarrow> builder_call list \<Rightarrow> encrypted_input" where
  "calls b [] = b"
| "calls b (c # cs) = calls (call b c) cs"

text \<open>The handle a call is expected to yield: the value in base 16, left-padded with
  zeros to 64 digits, and 32 bytes \<open>01\<close> or \<open>00\<close> for a boolean.\<close>

fun expectedHandle :: "builder_call \<Rightarrow> string" where
  "expectedHandle (Add8 v) = ''0x'' @ padStart 64 CHR ''0'' (toString16 v)"
| "expectedHandle (Add16 v) = ''0x'' @ padStart 64 CHR ''0'' (toString16 v)"
| "expectedHandle (Add32 v) = ''0x'' @ padStart 64 CHR ''0'' (toString16 v)"
| "expectedHandle (Add64 v) = ''0x'' @ padStart 64 CHR ''0'' (toString16 v)"
| "expectedHandle (AddBool v) = ''0x'' @ repeat (if v then ''01'' else ''00'') 32"

fun isAdd64 :: "builder_call \<Rightarrow> bool" where
  "isAdd64 (Add64 v) = True"
| "isAdd64 c = False"

section \<open>SDK validation (\<open>validation\<close> module)\<close>

fun hasProperty :: "jsval \<Rightarrow> string \<Rightarrow> string \<Rightarrow> bool" where
  "hasProperty obj propertyName propertyType =
     (if \<not> truthyVal obj then False
      else if typeof obj \<noteq> ''object'' then False
      else if \<not> hasOwn propertyName obj then False
      else let v = getProp obj propertyName in
           if v = JNull then False
           else if v = JUndefined then False
           else if typeof v \<noteq> propertyType then False
           else True)"

text \<open>\<open>isValidRelayerSDK\<close>. The calls of \<open>trace\<close> are logging and are left out; what
  remains of the test on \<open>foundRequiredMethods > 0 || availableMethods.length >= 3\<close>,
  of \<open>hasSepoliaConfig\<close> and of \<open>__initialized__\<close> is nothing, since their branches
  only log. The three \<open>return false\<close> and the final \<open>return true\<close> are the code's.\<close>

fun isValidRelayerSDK :: "jsval \<Rightarrow> bool" where
  "isValidRelayerSDK obj =
     (if typeof obj = ''undefined'' then False
      else if obj = JNull then False
      else if typeof obj \<noteq> ''object'' then False
      else
        let requiredMethods = [''initSDK'', ''createInstance''];
            availableMethods =
              filter (\<lambda>prop. typeof (getProp obj prop) = ''function'') (getOwnPropertyNames obj);
            foundRequiredMethods =
              length (filter (\<lambda>method. method \<in> set availableMethods) requiredMethods)
        in
          if length availableMethods = 0 \<and> foundRequiredMethods = 0 then False
          else
            let hasSepoliaConfig = hasProperty obj ''SepoliaConfig'' ''object'';
                allProps = getOwnPropertyNames obj;
                totalProps = length allProps
            in if totalProps = 0 then False else True)"

fun isValidFhevmWindow :: "jsval \<Rightarrow> bool" where
  "isValidFhevmWindow win =
     (if typeof win = ''undefined'' then False
      else if win = JNull then False
      else if typeof win \<noteq> ''object'' then False
      else if \<not> hasOwn ''relayerSDK'' win then False
      else if \<not> isValidRelayerSDK (getProp win ''relayerSDK'') then False
      else True)"

text \<open>\<open>isValidAddress\<close>: a string, \<open>0x\<close> first, 42 characters, and the pattern
  \<open>/^0x[0-9a-fA-F]{40}$/\<close>.\<close>

fun isHexChar :: "char \<Rightarrow> bool" where
  "isHexChar c = (hexValue c \<noteq> None)"

fun hexPattern :: "string \<Rightarrow> bool" where
  "hexPattern a = (startsWith a ''0x'' \<and> length (drop 2 a) = 40 \<and> list_all isHexChar (drop 2 a))"

fun isValidAddress :: "jsval \<Rightarrow> bool" where
  "isValidAddress (JString a) =
     (if \<not> startsWith a ''0x'' then False
      else if length a \<noteq> 42 then False
      else hexPattern a)"
| "isValidAddress v = False"

text \<open>The minimum bar in the words of the specification: a non-null object that exposes
  \<open>initSDK\<close> or \<open>createInstance\<close> as a function, or three or more callable members.\<close>

fun callableMembers :: "jsval \<Rightarrow> string list" where
  "callableMembers c =
     filter (\<lambda>name. typeof (getProp c name) = ''function'') (getOwnPropertyNames c)"

fun isNonNullObject :: "jsval \<Rightarrow> bool" where
  "isNonNullObject (JObject ps) = True"
| "isNonNullObject v = False"

definition specMinimumBar :: "jsval \<Rightarrow> bool" where
  "specMinimumBar c =
     (isNonNullObject c \<and>
      (''initSDK'' \<in> set (callableMembers c) \<or> ''createInstance'' \<in> set (callableMembers c) \<or>
       3 \<le> length (callableMembers c)))"

section \<open>Network resolution and the mock-backend probe (\<open>createFhevmInstance\<close> module)\<close>

text \<open>
  What the outside world answers is a parameter. A node, reached at a URL, answers the
  chain-identity query of \<open>JsonRpcProvider.getNetwork()\<close>, \<open>web3_clientVersion\<close> and
  \<open>fhevm_relayer_metadata\<close>, each with a value or with a thrown error.
\<close>

record rpc_node =
  networkChainId :: "js_error + int"
  clientVersion :: "js_error + jsval"
  relayerMetadata :: "js_error + jsval"

type_synonym network = "string \<Rightarrow> rpc_node"

text \<open>\<open>providerOrUrl\<close>: a string, or a value that is falsy, not an object, an object
  without a \<open>request\<close> function, or an EIP-1193 provider, given by what its
  \<open>request({ method: "eth_chainId" })\<close> resolves to (a string) or throws.\<close>

datatype provider =
    ProviderUrl string
  | ProviderFalsy
  | ProviderNotObject
  | ProviderNoRequest
  | Eip1193 "js_error + string"

fun errorMessage :: "js_error \<Rightarrow> string" where
  "errorMessage (Error m) = m"
| "errorMessage (TypeError m) = m"
| "errorMessage (FhevmError c m) = m"
| "errorMessage (FhevmAbortError m) = m"
| "errorMessage ThrownValue = ''Unknown error''"

fun getChainId :: "network \<Rightarrow> provider \<Rightarrow> js_error + jsnum" where
  "getChainId net (ProviderUrl url) =
     (case networkChainId (net url) of Inl e \<Rightarrow> Inl e | Inr c \<Rightarrow> Inr (Num c))"
| "getChainId net ProviderFalsy = Inl (Error ''Provider is null or undefined'')"
| "getChainId net ProviderNotObject = Inl (Error ''Provider must be an object with request method'')"
| "getChainId net ProviderNoRequest =
     Inl (Error ''Invalid provider: must be EIP-1193 compatible provider with request method'')"
| "getChainId net (Eip1193 response) =
     (case response of
        Inl e \<Rightarrow> Inl (Error (''Failed to get chainId: '' @ errorMessage e))
      | Inr chainId \<Rightarrow> Inr (parseInt16 chainId))"

fun getWeb3Client :: "network \<Rightarrow> string \<Rightarrow> js_error + jsval" where
  "getWeb3Client net rpcUrl =
     (case clientVersion (net rpcUrl) of
        Inl e \<Rightarrow> Inl (FhevmError ''WEB3_CLIENTVERSION_ERROR''
                   (''The URL '' @ rpcUrl @
                    '' is not a Web3 node or is not reachable. Please check the endpoint.''))
      | Inr version \<Rightarrow> Inr version)"

fun getFHEVMRelayerMetadata :: "network \<Rightarrow> string \<Rightarrow> js_error + jsval" where
  "getFHEVMRelayerMetadata net rpcUrl =
     (case relayerMetadata (net rpcUrl) of
        Inl e \<Rightarrow> Inl (FhevmError ''FHEVM_RELAYER_METADATA_ERROR''
                   (''The URL '' @ rpcUrl @
                    '' is not a FHEVM Hardhat node or is not reachable. Please check the endpoint.''))
      | Inr metadata \<Rightarrow> Inr metadata)"

text \<open>The loop over \<open>requiredFields\<close>: \<open>False\<close> is its \<open>return undefined\<close>, \<open>True\<close> is
  falling out of the loop.\<close>

fun startsWithVal :: "jsval \<Rightarrow> string \<Rightarrow> bool" where
  "startsWithVal (JString s) p = startsWith s p"
| "startsWithVal v p = False"

fun fieldsLoop :: "jsval \<Rightarrow> string list \<Rightarrow> bool" where
  "fieldsLoop metadata [] = True"
| "fieldsLoop metadata (field # rest) =
     (if \<not> hasOwn field metadata then False
      else if typeof (getProp metadata field) \<noteq> ''string'' then False
      else if \<not> startsWithVal (getProp metadata field) ''0x'' then False
      else fieldsLoop metadata rest)"

definition requiredFields :: "string list" where
  "requiredFields = [''ACLAddress'', ''InputVerifierAddress'', ''KMSVerifierAddress'']"

text \<open>\<open>tryFetchFHEVMHardhatNodeRelayerMetadata\<close>: \<open>Inl\<close> is a thrown error, \<open>Inr None\<close>
  is \<open>undefined\<close>. The version query is outside the \<open>try\<close>, the metadata query
  inside it.\<close>

fun versionIsHardhat :: "jsval \<Rightarrow> bool" where
  "versionIsHardhat (JString version) = includesStr (toLowerCase version) ''hardhat''"
| "versionIsHardhat v = False"

fun tryFetchFHEVMHardhatNodeRelayerMetadata :: "network \<Rightarrow> string \<Rightarrow> js_error + jsval option" where
  "tryFetchFHEVMHardhatNodeRelayerMetadata net rpcUrl =
     (case getWeb3Client net rpcUrl of
        Inl e \<Rightarrow> Inl e
      | Inr version \<Rightarrow>
          if \<not> versionIsHardhat version then Inr None
          else
            (case getFHEVMRelayerMetadata net rpcUrl of
               Inl e \<Rightarrow> Inr None
             | Inr metadata \<Rightarrow>
                 if \<not> truthyVal metadata then Inr None
                 else if typeof metadata \<noteq> ''object'' then Inr None
                 else if \<not> fieldsLoop metadata requiredFields then Inr None
                 else Inr (Some metadata)))"

text \<open>\<open>resolve\<close>. A table of mock chains is a \<open>Record<number, string>\<close>: a map from
  numbers to URLs. The object spread lets the caller's entries override the default.\<close>

record resolve_result =
  isMock :: bool
  chainId :: jsnum
  rpcUrl :: "string option"

type_synonym mock_chains = "jsnum \<rightharpoonup> string"

definition defaultMockChains :: mock_chains where
  "defaultMockChains = [Num 31337 \<mapsto> ''http://localhost:8545'']"

fun orEmpty :: "mock_chains option \<Rightarrow> mock_chains" where
  "orEmpty None = Map.empty"
| "orEmpty (Some t) = t"

fun providerUrl :: "provider \<Rightarrow> string option" where
  "providerUrl (ProviderUrl url) = Some url"
| "providerUrl p = None"

fun falsyUrl :: "string option \<Rightarrow> bool" where
  "falsyUrl None = True"
| "falsyUrl (Some u) = (u = [])"

fun resolve :: "network \<Rightarrow> provider \<Rightarrow> mock_chains option \<Rightarrow> js_error + resolve_result" where
  "resolve net providerOrUrl mockChains =
     (case getChainId net providerOrUrl of
        Inl e \<Rightarrow> Inl e
      | Inr c \<Rightarrow>
          let url = providerUrl providerOrUrl;
              mockChains' = defaultMockChains ++ orEmpty mockChains
          in case mockChains' c of
               Some entry \<Rightarrow>
                 Inr \<lparr> isMock = True, chainId = c,
                       rpcUrl = (if falsyUrl url then Some entry else url) \<rparr>
             | None \<Rightarrow> Inr \<lparr> isMock = False, chainId = c, rpcUrl = url \<rparr>)"

section \<open>Instance creation (\<open>createFhevmInstance\<close>)\<close>

text \<open>
  The abort signal is read at fixed places; \<open>signal p\<close> is the value of
  \<open>signal.aborted\<close> when the code reaches place \<open>p\<close>.
\<close>

datatype checkpoint =
    AfterResolve | AfterMockCreate | BeforeSdk | AfterLoad | AfterInit | BeforeCreate | AfterCreate

definition abortError :: js_error where
  "abortError = FhevmAbortError ''FHEVM operation was cancelled''"

fun throwIfAborted :: "(checkpoint \<Rightarrow> bool) \<Rightarrow> checkpoint \<Rightarrow> js_error + unit" where
  "throwIfAborted signal p = (if signal p then Inl abortError else Inr ())"

fun thenE :: "js_error + 'a \<Rightarrow> ('a \<Rightarrow> js_error + 'b) \<Rightarrow> js_error + 'b" where
  "thenE (Inl e) f = Inl e"
| "thenE (Inr x) f = f x"

text \<open>The real backend is outside the repository; each of its steps answers with a
  value or an error: whether the window holds a valid SDK when the branch is entered and
  when \<open>initFhevmSDK\<close> runs, how \<open>load()\<close> settles, whether the SDK is initialised, what
  \<open>initSDK\<close> resolves to, what reading \<open>SepoliaConfig.aclContractAddress\<close> gives and
  what \<open>createInstance\<close> resolves to.\<close>

record sdk_world =
  windowValidAtStart :: bool
  loadFhevmSDK :: "js_error + unit"
  fhevmInitialized :: bool
  windowValidAtInit :: bool
  initSDK :: "js_error + bool"
  aclContractAddress :: "js_error + string"
  createInstance :: "js_error + nat"

datatype fhevm_instance = MockInstance mock_instance | SdkInstance nat

fun initFhevmSDK :: "sdk_world \<Rightarrow> js_error + bool" where
  "initFhevmSDK w =
     (if \<not> windowValidAtInit w then Inl (Error ''window.relayerSDK is not available'')
      else thenE (initSDK w) (\<lambda>result.
        if \<not> result then Inl (Error ''window.relayerSDK.initSDK failed'') else Inr True))"

definition sepoliaChainId :: jsnum where
  "sepoliaChainId = Num 11155111"

fun realBackend :: "sdk_world \<Rightarrow> (checkpoint \<Rightarrow> bool) \<Rightarrow> js_error + fhevm_instance" where
  "realBackend w signal =
     thenE (throwIfAborted signal BeforeSdk) (\<lambda>_.
     thenE (if \<not> windowValidAtStart w
            then thenE (loadFhevmSDK w) (\<lambda>_. throwIfAborted signal AfterLoad)
            else Inr ()) (\<lambda>_.
     thenE (if \<not> fhevmInitialized w
            then thenE (initFhevmSDK w) (\<lambda>_. throwIfAborted signal AfterInit)
            else Inr ()) (\<lambda>_.
     thenE (aclContractAddress w) (\<lambda>aclAddress.
     if \<not> isValidAddress (JString aclAddress)
     then Inl (Error (''Invalid ACL address: '' @ aclAddress))
     else
     thenE (throwIfAborted signal BeforeCreate) (\<lambda>_.
     thenE (createInstance w) (\<lambda>instance.
     thenE (throwIfAborted signal AfterCreate) (\<lambda>_.
     Inr (SdkInstance instance))))))))"

text \<open>What follows the mock branch: the real backend for Sepolia, the final \<open>throw\<close>
  for every other chain.\<close>

fun afterMockBranch ::
  "sdk_world \<Rightarrow> (checkpoint \<Rightarrow> bool) \<Rightarrow> jsnum \<Rightarrow> js_error + fhevm_instance" where
  "afterMockBranch w signal c =
     (if c = sepoliaChainId then realBackend w signal
      else Inl (Error (''Unsupported network: chainId='' @ numberToString c)))"

text \<open>\<open>createFhevmInstance\<close>. The mock branch is a \<open>try\<close> whose \<open>catch\<close> only warns:
  an error thrown inside it, the abort error of its own \<open>throwIfAborted()\<close> included,
  leads to the code after the branch.\<close>

fun mockBranch :: "network \<Rightarrow> (checkpoint \<Rightarrow> bool) \<Rightarrow> jsnum \<Rightarrow> string \<Rightarrow> js_error + fhevm_instance option" where
  "mockBranch net signal c url =
     thenE (tryFetchFHEVMHardhatNodeRelayerMetadata net url) (\<lambda>fhevmRelayerMetadata.
       case fhevmRelayerMetadata of
         None \<Rightarrow> Inr None
       | Some metadata \<Rightarrow>
           let mockInstance = createFhevmMockInstance c url metadata in
           thenE (throwIfAborted signal AfterMockCreate) (\<lambda>_.
           Inr (Some (MockInstance mockInstance))))"

fun createFhevmInstance ::
  "network \<Rightarrow> sdk_world \<Rightarrow> provider \<Rightarrow> mock_chains option \<Rightarrow> (checkpoint \<Rightarrow> bool) \<Rightarrow>
   js_error + fhevm_instance" where
  "createFhevmInstance net w providerOrUrl mockChains signal =
     thenE (resolve net providerOrUrl mockChains) (\<lambda>r.
     thenE (throwIfAborted signal AfterResolve) (\<lambda>_.
     if isMock r \<and> \<not> falsyUrl (rpcUrl r)
     then (case rpcUrl r of
             None \<Rightarrow> afterMockBranch w signal (chainId r)
           | Some url \<Rightarrow>
               (case mockBranch net signal (chainId r) url of
                  Inr (Some mockInstance) \<Rightarrow> Inr mockInstance
                | Inr None \<Rightarrow> afterMockBranch w signal (chainId r)
                | Inl e \<Rightarrow> afterMockBranch w signal (chainId r)))
     else afterMockBranch w signal (chainId r)))"

text \<open>What the probe accepts, stated on the metadata alone: an object whose three
  address fields are strings that start with \<open>0x\<close>.\<close>

fun prefixedString :: "jsval \<Rightarrow> bool" where
  "prefixedString (JString s) = startsWith s ''0x''"
| "prefixedString v = False"

definition acceptedMetadata :: "jsval \<Rightarrow> bool" where
  "acceptedMetadata m =
     (isNonNullObject m \<and> prefixedString (getProp m ''ACLAddress'') \<and>
      prefixedString (getProp m ''InputVerifierAddress'') \<and>
      prefixedString (getProp m ''KMSVerifierAddress''))"

text \<open>Sample surroundings: a Hardhat node that reports given metadata, a node that is
  not Hardhat, metadata with short addresses, a caller's table that overrides the
  default entry, and a real backend in which every step succeeds.\<close>

definition hardhatNode :: "jsval \<Rightarrow> rpc_node" where
  "hardhatNode md =
     \<lparr> networkChainId = Inr 31337,
       clientVersion = Inr (JString ''HardhatNetwork/2.22.0/@nomicfoundation/ethereumjs-vm''),
       relayerMetadata = Inr md \<rparr>"

definition gethNode :: rpc_node where
  "gethNode =
     \<lparr> networkChainId = Inr 1,
       clientVersion = Inr (JString ''Geth/v1.13.14-stable/linux-amd64/go1.21.7''),
       relayerMetadata = Inl (Error ''the method fhevm_relayer_metadata does not exist'') \<rparr>"

definition shortMetadata :: jsval where
  "shortMetadata = JObject
     [(''ACLAddress'', JString ''0x12''),
      (''InputVerifierAddress'', JString ''0x''),
      (''KMSVerifierAddress'', JString ''0xzz'')]"

definition override0 :: mock_chains where
  "override0 = [Num 31337 \<mapsto> ''http://127.0.0.1:8545'']"

definition sdkWorld0 :: sdk_world where
  "sdkWorld0 =
     \<lparr> windowValidAtStart = False, loadFhevmSDK = Inr (), fhevmInitialized = False,
       windowValidAtInit = True, initSDK = Inr True,
       aclContractAddress = Inr ''0x687820221192C5B662b25367F70076A37bc79b6c'',
       createInstance = Inr 0 \<rparr>"

declare isValidRelayerSDK.simps [simp del] tryFetchFHEVMHardhatNodeRelayerMetadata.simps [simp del]
  resolve.simps [simp del] realBackend.simps [simp del] createFhevmInstance.simps [simp del]
  mockBranch.simps [simp del]

section \<open>The SDK loader (\<open>RelayerSDKLoader\<close>)\<close>

text \<open>
  The loader object and the page it runs in form one state: the field
  \<open>_loadPromise\<close>, whether \<open>window\<close> exists, the value of \<open>window.relayerSDK\<close> when
  the property is present and whether \<open>delete\<close> can remove it, the number of script
  elements whose \<open>src\<close> is the CDN URL, the promises made so far (a promise is its
  index), the callbacks that wait for a timer or for the script, and the number of
  script elements the loader has appended, each of which makes the browser fetch the
  CDN URL.
\<close>

definition SDK_CDN_URL :: string where
  "SDK_CDN_URL = ''https://cdn.zama.ai/relayer-sdk-js/0.1.2/relayer-sdk-js.umd.cjs''"

datatype promise_state = Pending | Fulfilled | Rejected js_error

datatype task =
    CheckExisting nat
  | ScriptHandlers nat
  | LoadTimeout nat
  | Validate nat

record loader_world =
  loadPromise :: "nat option"
  hasWindow :: bool
  windowSDK :: "jsval option"
  sdkConfigurable :: bool
  scriptTags :: nat
  promises :: "promise_state list"
  tasks :: "task list"
  fetches :: nat

fun newPromise :: "promise_state \<Rightarrow> loader_world \<Rightarrow> nat \<times> loader_world" where
  "newPromise st w = (length (promises w), w\<lparr> promises := promises w @ [st] \<rparr>)"

text \<open>\<open>resolve()\<close> and \<open>reject(e)\<close> of a promise: only a pending promise changes.\<close>

fun settle :: "nat \<Rightarrow> promise_state \<Rightarrow> loader_world \<Rightarrow> loader_world" where
  "settle p st w =
     (if p < length (promises w) \<and> promises w ! p = Pending
      then w\<lparr> promises := (promises w)[p := st] \<rparr>
      else w)"

fun windowValue :: "loader_world \<Rightarrow> jsval" where
  "windowValue w =
     (if \<not> hasWindow w then JUndefined
      else case windowSDK w of
             None \<Rightarrow> JObject []
           | Some sdk \<Rightarrow> JObject [(''relayerSDK'', sdk)])"

fun isLoaded :: "loader_world \<Rightarrow> js_error + bool" where
  "isLoaded w =
     (if \<not> hasWindow w then Inl (Error ''RelayerSDKLoader: can only be used in the browser'')
      else Inr (isValidFhevmWindow (windowValue w)))"

text \<open>\<open>_performLoad()\<close>: the executor of the new promise runs at once. With a script
  element for the URL already in the document it only sets the 100 ms timer; otherwise
  it creates the element, sets the 30 s timer and appends the element.\<close>

fun performLoad :: "loader_world \<Rightarrow> nat \<times> loader_world" where
  "performLoad w =
     (let (p, w1) = newPromise Pending w in
      if 0 < scriptTags w1
      then (p, w1\<lparr> tasks := tasks w1 @ [CheckExisting p] \<rparr>)
      else (p, w1\<lparr> tasks := tasks w1 @ [ScriptHandlers p, LoadTimeout p],
                     scriptTags := scriptTags w1 + 1,
                     fetches := fetches w1 + 1 \<rparr>))"

text \<open>\<open>load()\<close> returns a promise and the state it leaves.\<close>

fun setLoadPromise :: "nat \<times> loader_world \<Rightarrow> nat \<times> loader_world" where
  "setLoadPromise (p, w) = (p, w\<lparr> loadPromise := Some p \<rparr>)"

fun load :: "loader_world \<Rightarrow> nat \<times> loader_world" where
  "load w =
     (case loadPromise w of
        Some p \<Rightarrow> (p, w)
      | None \<Rightarrow>
          if \<not> hasWindow w
          then newPromise (Rejected (Error ''RelayerSDKLoader: can only be used in the browser'')) w
          else
            (case windowSDK w of
               Some sdk \<Rightarrow>
                 if \<not> isValidRelayerSDK sdk
                 then setLoadPromise (performLoad
                        (w\<lparr> windowSDK := (if sdkConfigurable w then None else Some sdk),
                            scriptTags := 0,
                            loadPromise := None \<rparr>))
                 else newPromise Fulfilled w
             | None \<Rightarrow> setLoadPromise (performLoad w)))"

text \<open>\<open>forceReload()\<close>. Its \<open>delete\<close> is not inside a \<open>try\<close>: in a module, which is
  strict code, deleting a property that cannot be removed throws.\<close>

fun forceReload :: "loader_world \<Rightarrow> js_error + nat \<times> loader_world" where
  "forceReload w =
     (let w1 = w\<lparr> loadPromise := None, scriptTags := 0 \<rparr> in
      if hasWindow w1 \<and> windowSDK w1 \<noteq> None
      then if sdkConfigurable w1 then Inr (load (w1\<lparr> windowSDK := None \<rparr>))
           else Inl (TypeError ''Cannot delete property relayerSDK'')
      else Inr (load w1))"

text \<open>What happens between calls: a timer fires, the script element signals \<open>load\<close>
  or \<open>error\<close>, or some code assigns or removes \<open>window.relayerSDK\<close>. An event whose
  callback is not waiting does nothing.\<close>

datatype event =
    TimerCheckExisting nat
  | ScriptOnload nat
  | ScriptOnerror nat
  | TimerLoadTimeout nat
  | TimerValidate nat
  | GlobalAssigned "jsval option"

fun validated :: "loader_world \<Rightarrow> string \<Rightarrow> promise_state" where
  "validated w message =
     (if \<not> isValidFhevmWindow (windowValue w) then Rejected (Error message) else Fulfilled)"

fun step :: "event \<Rightarrow> loader_world \<Rightarrow> loader_world" where
  "step (TimerCheckExisting p) w =
     (if CheckExisting p \<in> set (tasks w)
      then settle p
             (validated w ''RelayerSDKLoader: Script exists but window.relayerSDK is invalid'')
             (w\<lparr> tasks := remove1 (CheckExisting p) (tasks w) \<rparr>)
      else w)"
| "step (ScriptOnload p) w =
     (if ScriptHandlers p \<in> set (tasks w)
      then w\<lparr> tasks := remove1 (LoadTimeout p) (remove1 (ScriptHandlers p) (tasks w)) @ [Validate p] \<rparr>
      else w)"
| "step (ScriptOnerror p) w =
     (if ScriptHandlers p \<in> set (tasks w)
      then settle p
             (Rejected (Error (''RelayerSDKLoader: Failed to load SDK from '' @ SDK_CDN_URL)))
             (w\<lparr> tasks := remove1 (LoadTimeout p) (remove1 (ScriptHandlers p) (tasks w)) \<rparr>)
      else w)"
| "step (TimerLoadTimeout p) w =
     (if LoadTimeout p \<in> set (tasks w)
      then settle p
             (Rejected (Error (''RelayerSDKLoader: Load timeout for '' @ SDK_CDN_URL)))
             (w\<lparr> tasks := remove1 (LoadTimeout p) (tasks w) \<rparr>)
      else w)"
| "step (TimerValidate p) w =
     (if Validate p \<in> set (tasks w)
      then settle p
             (validated w (''RelayerSDKLoader: Script loaded from '' @ SDK_CDN_URL @
                           '' but window.relayerSDK is invalid''))
             (w\<lparr> tasks := remove1 (Validate p) (tasks w) \<rparr>)
      else w)"
| "step (GlobalAssigned v) w = w\<lparr> windowSDK := v \<rparr>"

fun run :: "event list \<Rightarrow> loader_world \<Rightarrow> loader_world" where
  "run [] w = w"
| "run (e # es) w = run es (step e w)"

text \<open>Two pages before the first \<open>load()\<close>: an empty one, and one in which another
  loader has already appended the script element.\<close>

definition freshPage :: loader_world where
  "freshPage =
     \<lparr> loadPromise = None, hasWindow = True, windowSDK = None, sdkConfigurable = True,
       scriptTags = 0, promises = [], tasks = [], fetches = 0 \<rparr>"

definition pageWithScript :: loader_world where
  "pageWithScript = freshPage\<lparr> scriptTags := 1 \<rparr>"

declare load.simps [simp del] performLoad.simps [simp del] step.simps [simp del]
  settle.simps [simp del]

section \<open>The lifecycle hook (\<open>useFhevm\<close>)\<close>

text \<open>
  The hook is a React function component's hook. What React does with it is written
  out: the state variables keep, between two renders, the values of the last render;
  a call of a state setter is queued and takes effect at the next render; a ref changes
  at once; after a render the effects whose dependencies differ from those of the
  previous render run in the order of their declaration, all of them after the first
  render. A provider is known by its identity, a number; so are an abort controller
  (and its signal) and an instance.
\<close>

datatype go_state = StatusIdle | StatusLoading | StatusReady | StatusError

datatype props = Props (propProvider: "nat option") (propChainId: "nat option") (propEnabled: bool)

datatype set_state =
    SetInstance "nat option"
  | SetStatus go_state
  | SetError "js_error option"
  | SetIsRunning bool
  | BumpProviderChanged

record hook =
  hookInstance :: "nat option"
  hookStatus :: go_state
  hookError :: "js_error option"
  isRunning :: bool
  providerChanged :: nat
  queued :: "set_state list"
  abortControllerRef :: "nat option"
  providerRef :: "nat option"
  chainIdRef :: "nat option"
  controllers :: nat
  abortedSignals :: "nat list"
  attempts :: "(nat \<times> nat) list"
  settledAttempts :: "nat list"
  lastRefreshDeps :: "(nat option \<times> nat option) option"
  lastEnabled :: "bool option"
  lastMainDeps :: "(bool \<times> nat) option"

text \<open>The state before the first render: \<open>useState\<close> and \<open>useRef\<close> take their initial
  values from the parameters of that render.\<close>

fun initialHook :: "props \<Rightarrow> hook" where
  "initialHook (Props provider chain enabled) =
     \<lparr> hookInstance = None, hookStatus = StatusIdle, hookError = None,
       isRunning = enabled, providerChanged = 0, queued = [],
       abortControllerRef = None, providerRef = provider, chainIdRef = chain,
       controllers = 0, abortedSignals = [], attempts = [], settledAttempts = [],
       lastRefreshDeps = None, lastEnabled = None, lastMainDeps = None \<rparr>"

fun enqueue :: "set_state list \<Rightarrow> hook \<Rightarrow> hook" where
  "enqueue us h = h\<lparr> queued := queued h @ us \<rparr>"

fun applyUpdate :: "hook \<Rightarrow> set_state \<Rightarrow> hook" where
  "applyUpdate h (SetInstance v) = h\<lparr> hookInstance := v \<rparr>"
| "applyUpdate h (SetStatus v) = h\<lparr> hookStatus := v \<rparr>"
| "applyUpdate h (SetError v) = h\<lparr> hookError := v \<rparr>"
| "applyUpdate h (SetIsRunning v) = h\<lparr> isRunning := v \<rparr>"
| "applyUpdate h BumpProviderChanged = h\<lparr> providerChanged := providerChanged h + 1 \<rparr>"

fun applyQueued :: "hook \<Rightarrow> hook" where
  "applyQueued h = (foldl applyUpdate h (queued h))\<lparr> queued := [] \<rparr>"

text \<open>\<open>refresh\<close>, the callback made for the parameters \<open>provider\<close> and \<open>chainId\<close>.\<close>

fun refresh :: "nat option \<Rightarrow> nat option \<Rightarrow> hook \<Rightarrow> hook" where
  "refresh provider chain h =
     (let h1 = (case abortControllerRef h of
                  Some c \<Rightarrow> h\<lparr> providerRef := None, chainIdRef := None,
                               abortedSignals := c # abortedSignals h,
                               abortControllerRef := None \<rparr>
                | None \<Rightarrow> h);
          h2 = h1\<lparr> providerRef := provider, chainIdRef := chain \<rparr>;
          h3 = enqueue [SetInstance None, SetError None, SetStatus StatusIdle] h2
      in if provider \<noteq> None then enqueue [BumpProviderChanged] h3 else h3)"

text \<open>The main effect. It reads \<open>_isRunning\<close> of the render it belongs to and the refs
  as they are. \<open>_assert\<close> throws when its condition fails. An attempt is the call of
  \<open>createFhevmInstance\<close>; what its \<open>then\<close> and \<open>catch\<close> callbacks keep of it are
  \<open>thisSignal\<close> and \<open>thisProvider\<close>.\<close>

definition abortedAssertion :: js_error where
  "abortedAssertion = Error ''Assertion failed: AbortController should not be aborted''"

fun mainEffect :: "hook \<Rightarrow> js_error + hook" where
  "mainEffect h =
     (if \<not> isRunning h
      then
        let h1 = (case abortControllerRef h of
                    Some c \<Rightarrow> h\<lparr> abortedSignals := c # abortedSignals h,
                                 abortControllerRef := None \<rparr>
                  | None \<Rightarrow> h)
        in Inr (enqueue [SetInstance None, SetError None, SetStatus StatusIdle] h1)
      else
        (case providerRef h of
           None \<Rightarrow> Inr (enqueue [SetInstance None, SetError None, SetStatus StatusIdle] h)
         | Some thisProvider \<Rightarrow>
             let h1 = (case abortControllerRef h of
                         None \<Rightarrow> h\<lparr> abortControllerRef := Some (controllers h),
                                      controllers := controllers h + 1 \<rparr>
                       | Some c \<Rightarrow> h)
             in case abortControllerRef h1 of
                  None \<Rightarrow> Inr h1
                | Some thisSignal \<Rightarrow>
                    if thisSignal \<in> set (abortedSignals h1) then Inl abortedAssertion
                    else
                      let h2 = enqueue [SetStatus StatusLoading, SetError None] h1
                      in Inr (h2\<lparr> attempts := attempts h2 @ [(thisSignal, thisProvider)] \<rparr>)))"

text \<open>One render with the effects that follow it.\<close>

fun render :: "props \<Rightarrow> hook \<Rightarrow> js_error + hook" where
  "render (Props provider chain enabled) h =
     (let h0 = applyQueued h;
          h1 = (if lastRefreshDeps h0 \<noteq> Some (provider, chain)
                then refresh provider chain h0 else h0);
          h2 = (if lastEnabled h0 \<noteq> Some enabled
                then enqueue [SetIsRunning enabled] h1 else h1);
          deps = (isRunning h0, providerChanged h0);
          h3 = h2\<lparr> lastRefreshDeps := Some (provider, chain), lastEnabled := Some enabled,
                    lastMainDeps := Some deps \<rparr>
      in if lastMainDeps h0 \<noteq> Some deps then mainEffect h3 else Inr h3)"

text \<open>The callbacks of an attempt. The \<open>then\<close> callback runs when the attempt yields
  an instance, the \<open>catch\<close> callback when it throws; a failed \<open>_assert\<close> in \<open>then\<close>
  leads to \<open>catch\<close>, where the same \<open>_assert\<close> fails again, so that no setter is
  called. An attempt settles once.\<close>

fun settleAttempt :: "nat \<Rightarrow> js_error + nat \<Rightarrow> hook \<Rightarrow> hook" where
  "settleAttempt i outcome h =
     (if \<not> i < length (attempts h) then h
      else if i \<in> set (settledAttempts h) then h
      else
        let (thisSignal, thisProvider) = attempts h ! i;
            h1 = h\<lparr> settledAttempts := i # settledAttempts h \<rparr>
        in if thisSignal \<in> set (abortedSignals h) then h1
           else if Some thisProvider \<noteq> providerRef h then h1
           else (case outcome of
                   Inr newInstance \<Rightarrow>
                     enqueue [SetInstance (Some newInstance), SetError None, SetStatus StatusReady] h1
                 | Inl e \<Rightarrow>
                     enqueue [SetInstance None, SetError (Some e), SetStatus StatusError] h1))"

text \<open>The caller invokes the \<open>refresh\<close> of the last render; the component unmounts.\<close>

fun callRefresh :: "hook \<Rightarrow> hook" where
  "callRefresh h =
     (case lastRefreshDeps h of
        None \<Rightarrow> h
      | Some (provider, chain) \<Rightarrow> refresh provider chain h)"

fun unmount :: "hook \<Rightarrow> hook" where
  "unmount h =
     (case abortControllerRef h of
        Some c \<Rightarrow> h\<lparr> abortedSignals := c # abortedSignals h \<rparr>
      | None \<Rightarrow> h)"

datatype hook_event =
    Render props
  | CallRefresh
  | Settle nat "js_error + nat"
  | Unmount

fun hookStep :: "hook_event \<Rightarrow> hook \<Rightarrow> js_error + hook" where
  "hookStep (Render p) h = render p h"
| "hookStep CallRefresh h = Inr (callRefresh h)"
| "hookStep (Settle i outcome) h = Inr (settleAttempt i outcome h)"
| "hookStep Unmount h = Inr (unmount h)"

fun runHook :: "hook_event list \<Rightarrow> hook \<Rightarrow> js_error + hook" where
  "runHook [] h = Inr h"
| "runHook (e # es) h = (case hookStep e h of Inl err \<Rightarrow> Inl err | Inr h1 \<Rightarrow> runHook es h1)"

text \<open>What a caller of the hook sees after a render.\<close>

fun observed :: "hook \<Rightarrow> nat option \<times> go_state \<times> js_error option" where
  "observed h = (hookInstance h, hookStatus h, hookError h)"

definition props0 :: props where
  "props0 = Props (Some 0) (Some 31337) True"

declare refresh.simps [simp del] mainEffect.simps [simp del] render.simps [simp del]
  settleAttempt.simps [simp del]

section \<open>Properties of the mock instance\<close>

lemma length_natToString16_pos: "0 < length (natToString16 n)"
  by (subst natToString16.simps) simp

lemma length_natToString16_le:
  "n < 16 ^ k \<Longrightarrow> 0 < k \<Longrightarrow> length (natToString16 n) \<le> k"
proof (induction n arbitrary: k rule: natToString16.induct)
  case (1 n)
  show ?case
  proof (cases "n < 16")
    case True
    with "1.prems" show ?thesis by (subst natToString16.simps) simp
  next
    case False
    with "1.prems" obtain j where k: "k = Suc j" by (cases k) auto
    from False "1.prems" k have "0 < j" by (cases j) auto
    moreover from "1.prems" k have "n div 16 < 16 ^ j"
      by (simp add: less_mult_imp_div_less mult.commute)
    ultimately have "length (natToString16 (n div 16)) \<le> j"
      using "1.IH" False by blast
    with False k show ?thesis by (subst natToString16.simps) simp
  qed
qed

lemma parseInt16_zeros: "parseInt16 (replicate 8 CHR ''0'') = Num 0"
  by code_simp

text \<open>
  Whatever 32-bit value was encrypted, the numeric branch of \<open>decrypt\<close> reads the
  first eight of the 64 digits, which are all padding, and returns 0.
\<close>

lemma decrypt_encrypt32_is_zero:
  assumes "0 \<le> v" and "v < 2 ^ 32" and "ty \<noteq> ''bool''" and "ty \<noteq> ''ebool''"
  shows "decrypt inst (encrypt32 inst v) ty = DNumber (Num 0)"
proof -
  have "nat v < 16 ^ 8" using assms by simp
  then have len: "length (natToString16 (nat v)) \<le> 8"
    by (rule length_natToString16_le) simp
  define s where "s = natToString16 (nat v)"
  have enc: "encrypt32 inst v = ''0x'' @ replicate (64 - length s) CHR ''0'' @ s"
    using assms by (simp add: s_def)
  have "replaceFirst (encrypt32 inst v) ''0x'' [] = replicate (64 - length s) CHR ''0'' @ s"
    unfolding enc by simp
  moreover have "take 8 (replicate (64 - length s) CHR ''0'' @ s) = replicate 8 CHR ''0''"
    using len by (simp add: s_def min_def)
  ultimately show ?thesis
    using assms parseInt16_zeros by (simp del: parseInt16.simps encrypt32.simps)
qed

lemma hexValue_hexDigit: "hexValue (hexDigit d) = Some (d mod 16)"
proof -
  have "\<forall>i \<in> set [0..<16]. hexValue (''0123456789abcdef'' ! i) = Some i"
    by code_simp
  moreover have "d mod 16 \<in> set [0..<16]" by simp
  ultimately show ?thesis unfolding hexDigit_def by blast
qed

lemma hexDigit_plain:
  "\<not> isWhiteSpace (hexDigit d) \<and> hexDigit d \<noteq> CHR ''-'' \<and> hexDigit d \<noteq> CHR ''+'' \<and>
   hexDigit d \<noteq> CHR ''x'' \<and> hexDigit d \<noteq> CHR ''X''"
proof -
  have "\<forall>i \<in> set [0..<16]. \<not> isWhiteSpace (''0123456789abcdef'' ! i) \<and>
      ''0123456789abcdef'' ! i \<noteq> CHR ''-'' \<and> ''0123456789abcdef'' ! i \<noteq> CHR ''+'' \<and>
      ''0123456789abcdef'' ! i \<noteq> CHR ''x'' \<and> ''0123456789abcdef'' ! i \<noteq> CHR ''X''"
    by code_simp
  moreover have "d mod 16 \<in> set [0..<16]" by simp
  ultimately show ?thesis unfolding hexDigit_def by blast
qed

lemma natToString16_digits: "\<exists>ds. ds \<noteq> [] \<and> natToString16 n = map hexDigit ds"
proof (induction n rule: natToString16.induct)
  case (1 n)
  show ?case
  proof (cases "n < 16")
    case True
    then have "natToString16 n = map hexDigit [n]" by (subst natToString16.simps) simp
    then show ?thesis by blast
  next
    case False
    with "1.IH" obtain ds where "ds \<noteq> []" "natToString16 (n div 16) = map hexDigit ds" by blast
    with False have "natToString16 n = map hexDigit (ds @ [n mod 16])"
      by (subst natToString16.simps) simp
    then show ?thesis by blast
  qed
qed

lemma hexRun_digits: "hexRun (map hexDigit ds @ rest) = map (\<lambda>d. d mod 16) ds @ hexRun rest"
  by (induction ds) (simp_all add: hexValue_hexDigit del: hexValue.simps)

lemma hexNumber_natToString16:
  "foldl (\<lambda>acc d. 16 * acc + d) a (hexRun (natToString16 n @ rest)) =
   foldl (\<lambda>acc d. 16 * acc + d) (16 ^ length (natToString16 n) * a + n) (hexRun rest)"
proof (induction n arbitrary: a rest rule: natToString16.induct)
  case (1 n)
  show ?case
  proof (cases "n < 16")
    case True
    then have u: "natToString16 n = [hexDigit n]" by (subst natToString16.simps) simp
    from True show ?thesis unfolding u by (simp add: hexValue_hexDigit del: hexValue.simps)
  next
    case False
    then have u: "natToString16 n = natToString16 (n div 16) @ [hexDigit (n mod 16)]"
      by (subst natToString16.simps) simp
    have "foldl (\<lambda>acc d. 16 * acc + d) a (hexRun (natToString16 n @ rest)) =
        foldl (\<lambda>acc d. 16 * acc + d) a
          (hexRun (natToString16 (n div 16) @ (hexDigit (n mod 16) # rest)))"
      unfolding u by simp
    also have "\<dots> = foldl (\<lambda>acc d. 16 * acc + d)
        (16 ^ length (natToString16 (n div 16)) * a + n div 16)
        (hexRun (hexDigit (n mod 16) # rest))"
      using "1.IH" [OF False] by simp
    also have "\<dots> = foldl (\<lambda>acc d. 16 * acc + d)
        (16 * (16 ^ length (natToString16 (n div 16)) * a + n div 16) + n mod 16) (hexRun rest)"
      by (simp add: hexValue_hexDigit del: hexValue.simps)
    also have "16 * (16 ^ length (natToString16 (n div 16)) * a + n div 16) + n mod 16 =
        16 ^ length (natToString16 n) * a + n"
      unfolding u by (simp add: algebra_simps)
    finally show ?thesis .
  qed
qed

lemma zeros_are_digits: "replicate k CHR ''0'' = map hexDigit (replicate k 0)"
  by (simp add: hexDigit_def)

lemma foldl_zeros: "foldl (\<lambda>acc d. 16 * acc + d) 0 (replicate k (0::nat)) = 0"
  by (induction k) simp_all

lemma parseInt16_padded:
  "parseInt16 (replicate k CHR ''0'' @ natToString16 n) = Num (int n)"
proof -
  obtain ds where ds: "ds \<noteq> []" "natToString16 n = map hexDigit ds"
    using natToString16_digits by blast
  define s where "s = replicate k CHR ''0'' @ natToString16 n"
  have s: "s = map hexDigit (replicate k 0 @ ds)"
    by (simp add: s_def ds zeros_are_digits)
  then obtain d0 rest where c: "s = hexDigit d0 # map hexDigit rest"
    using ds by (cases "replicate k (0::nat) @ ds") auto
  have w: "dropWhile isWhiteSpace s = s"
    unfolding c using hexDigit_plain [of d0] by (simp del: isWhiteSpace.simps)
  have sign: "\<not> startsWith s ''-''" "\<not> startsWith s ''+''"
    unfolding c using hexDigit_plain [of d0] by simp_all
  have px: "\<not> startsWith s ''0x''" "\<not> startsWith s ''0X''"
  proof -
    show "\<not> startsWith s ''0x''"
    proof (cases rest)
      case Nil then show ?thesis unfolding c by simp
    next
      case (Cons d1 r)
      then show ?thesis unfolding c using hexDigit_plain [of d1] by simp
    qed
    show "\<not> startsWith s ''0X''"
    proof (cases rest)
      case Nil then show ?thesis unfolding c by simp
    next
      case (Cons d1 r)
      then show ?thesis unfolding c using hexDigit_plain [of d1] by simp
    qed
  qed
  have run: "hexRun s = replicate k 0 @ hexRun (natToString16 n)"
    using hexRun_digits [of "replicate k 0" "natToString16 n"]
    by (simp add: s_def zeros_are_digits del: hexRun.simps)
  have ne: "hexRun s \<noteq> []"
    using hexRun_digits [of "replicate k 0 @ ds" "[]"] ds s by simp
  have "hexNumber (hexRun s) = foldl (\<lambda>acc d. 16 * acc + d) 0 (hexRun (natToString16 n @ []))"
    unfolding run by (simp add: foldl_zeros del: hexRun.simps)
  also have "\<dots> = n"
    by (simp only: hexNumber_natToString16) simp
  finally have v: "hexNumber (hexRun s) = n" .
  have "parseInt16 s = Num (int n)"
    using w sign px ne v by (simp add: Let_def del: startsWith.simps hexRun.simps hexNumber.simps isWhiteSpace.simps)
  then show ?thesis by (simp only: s_def)
qed

text \<open>
  The handle does carry the value: parsed as a whole, the digits after \<open>0x\<close> give
  back every non-negative \<open>v\<close>.
\<close>

lemma handle_carries_value:
  assumes "0 \<le> v"
  shows "parseInt16 (replaceFirst (encrypt32 inst v) ''0x'' []) = Num v"
proof -
  have "replaceFirst (encrypt32 inst v) ''0x'' [] =
      replicate (64 - length (natToString16 (nat v))) CHR ''0'' @ natToString16 (nat v)"
    using assms by simp
  with parseInt16_padded [of "64 - length (natToString16 (nat v))" "nat v"] assms
  show ?thesis by (simp del: parseInt16.simps encrypt32.simps replaceFirst.simps)
qed

text \<open>
  Claim C1 asks that \<open>decrypt\<close> of the handle \<open>encrypt32(v)\<close> returns \<open>v\<close> for every
  \<open>v\<close> from 0 to \<open>2^32 - 1\<close>. On any mock instance, for \<open>v = 1\<close> and the numeric
  type \<open>euint32\<close>, the code returns 0: the handle is
  \<open>0x\<close> followed by 63 zeros and a 1, and \<open>decrypt\<close> parses its first eight digits.
\<close>

theorem C1_decrypt_encrypt32_one:
  "decrypt inst (encrypt32 inst 1) ''euint32'' = DNumber (Num 0)"
  by code_simp

section \<open>Properties of the encrypted-input builder\<close>

lemma pushHandles_eq: "pushHandles acc xs = acc @ map handleOf xs"
  by (induction xs arbitrary: acc) (simp_all add: pushHandles.simps)

lemma handles_calls:
  "map handleOf (inputs (calls b cs)) = map handleOf (inputs b) @ map expectedHandle cs"
proof (induction cs arbitrary: b)
  case Nil
  show ?case by simp
next
  case (Cons c cs)
  have "map handleOf (inputs (call b c)) = map handleOf (inputs b) @ [expectedHandle c]"
    by (cases c) simp_all
  with Cons.IH [of "call b c"] show ?case by (simp del: handleOf.simps)
qed

text \<open>
  The loop of \<open>encrypt()\<close> computes one handle per call, in the order of the calls.
\<close>

lemma pushHandles_calls:
  "pushHandles [] (inputs (calls (createEncryptedInput inst c u) cs)) = map expectedHandle cs"
  by (simp add: pushHandles_eq handles_calls del: expectedHandle.simps)

lemma encrypt_Inr:
  assumes "encrypt b t = Inr r"
  shows "\<exists>j. stringifyProofData b t = Inr j \<and>
    r = \<lparr> handles = pushHandles [] (inputs b), inputProof = ''0x'' @ bufferHex j \<rparr>"
proof (cases "stringifyProofData b t")
  case (Inl e)
  with assms show ?thesis by (simp add: encrypt.simps)
next
  case (Inr j)
  with assms show ?thesis by (simp add: encrypt.simps)
qed

text \<open>Whenever \<open>encrypt()\<close> returns, the handles are the expected ones, in order.\<close>

lemma encrypt_handles:
  assumes "encrypt (calls (createEncryptedInput inst c u) cs) now = Inr r"
  shows "handles r = map expectedHandle cs"
proof -
  from encrypt_Inr [OF assms]
  have "handles r = pushHandles [] (inputs (calls (createEncryptedInput inst c u) cs))"
    by auto
  then show ?thesis by (simp only: pushHandles_calls)
qed

text \<open>It returns when no call was \<open>add64\<close>.\<close>

lemma jsonEntries_calls:
  assumes "list_all (\<lambda>c. \<not> isAdd64 c) cs" and "jsonEntries (inputs b) = Inr js"
  shows "\<exists>js'. jsonEntries (inputs (calls b cs)) = Inr js'"
  using assms
proof (induction cs arbitrary: b js)
  case Nil
  then show ?case by simp
next
  case (Cons c cs)
  have app: "\<And>xs e js. jsonEntries xs = Inr js \<Longrightarrow> jsonEntry e = Inr j \<Longrightarrow>
      jsonEntries (xs @ [e]) = Inr (js @ [j])" for j
  proof -
    fix xs :: "input_entry list" and e js j
    show "jsonEntries xs = Inr js \<Longrightarrow> jsonEntry e = Inr j \<Longrightarrow>
      jsonEntries (xs @ [e]) = Inr (js @ [j])"
      by (induction xs arbitrary: js) (auto split: sum.splits simp del: jsonEntry.simps)
  qed
  from Cons.prems(1) have c: "\<not> isAdd64 c" and cs: "list_all (\<lambda>c. \<not> isAdd64 c) cs"
    by simp_all
  from c obtain j where "jsonEntry (last (inputs (call b c))) = Inr j"
    and "inputs (call b c) = inputs b @ [last (inputs (call b c))]"
    by (cases c) simp_all
  with app [OF Cons.prems(2)] have "jsonEntries (inputs (call b c)) = Inr (js @ [j])"
    by metis
  from Cons.IH [OF cs this] show ?case by simp
qed

lemma encrypt_without_add64:
  assumes "list_all (\<lambda>c. \<not> isAdd64 c) cs"
  shows "\<exists>r. encrypt (calls (createEncryptedInput inst c u) cs) now = Inr r \<and>
             handles r = map expectedHandle cs"
proof -
  have "jsonEntries (inputs (createEncryptedInput inst c u)) = Inr []" by simp
  from jsonEntries_calls [OF assms this]
  obtain js where "jsonEntries (inputs (calls (createEncryptedInput inst c u) cs)) = Inr js"
    by blast
  then obtain r where r: "encrypt (calls (createEncryptedInput inst c u) cs) now = Inr r"
    by (simp add: encrypt.simps stringifyProofData.simps)
  with encrypt_handles [OF r] show ?thesis by blast
qed

text \<open>
  Claim C2 asks that, after every sequence of \<open>add8\<close>, \<open>add16\<close>, \<open>add32\<close>, \<open>add64\<close>
  and \<open>addBool\<close> calls, \<open>encrypt()\<close> returns one handle per input, in insertion order.
  After the single call \<open>add64(1n)\<close> the code returns nothing: building the proof,
  \<open>JSON.stringify\<close> meets the \<open>bigint\<close> and throws, and the promise is rejected.
\<close>

theorem C2_encrypt_after_add64_throws:
  "encrypt (calls (createEncryptedInput inst c u) [Add64 1]) now = Inl bigIntTypeError"
  by (simp add: encrypt.simps stringifyProofData.simps)

subsection \<open>Two invocations of \<open>encrypt()\<close>\<close>

text \<open>The hexadecimal form of one character, and the facts that make the proof blob
  determine the string it was made from.\<close>

lemma hexDigit_inj: "hexDigit a = hexDigit b \<Longrightarrow> a mod 16 = b mod 16"
proof -
  assume h: "hexDigit a = hexDigit b"
  have d: "distinct ''0123456789abcdef''" by simp
  have "a mod 16 < length ''0123456789abcdef''" and "b mod 16 < length ''0123456789abcdef''"
    by simp_all
  with d h show ?thesis
    unfolding hexDigit_def by (simp only: nth_eq_iff_index_eq)
qed

lemma bufferHex_Nil: "bufferHex [] = []"
  by (simp add: bufferHex.simps)

lemma bufferHex_Cons: "bufferHex (c # s) = charHex c @ bufferHex s"
  by (simp add: bufferHex.simps)

lemma bufferHex_append: "bufferHex (s @ t) = bufferHex s @ bufferHex t"
  by (simp add: bufferHex.simps)

lemma of_char_less_256: "(of_char c :: nat) < 256"
  by (cases c) (simp add: of_char_Char)

lemma byteHex_inj:
  assumes "a < 256" and "b < 256" and "byteHex a = byteHex b"
  shows "a = b"
proof -
  from assms(3) have h1: "hexDigit (a div 16) = hexDigit (b div 16)"
    and h2: "hexDigit a = hexDigit b"
    by simp_all
  from h1 have "(a div 16) mod 16 = (b div 16) mod 16" by (rule hexDigit_inj)
  moreover from h2 have m: "a mod 16 = b mod 16" by (rule hexDigit_inj)
  moreover from assms(1,2) have "a div 16 < 16" and "b div 16 < 16" by simp_all
  ultimately have "a div 16 = b div 16" by simp
  with m show ?thesis by (metis div_mult_mod_eq)
qed

lemma charHex_ascii: "(of_char c :: nat) < 128 \<Longrightarrow> charHex c = byteHex (of_char c)"
  by (simp add: Let_def)

lemma charHex_latin:
  "\<not> (of_char c :: nat) < 128 \<Longrightarrow>
   charHex c = byteHex (192 + of_char c div 64) @ byteHex (128 + of_char c mod 64)"
  by (simp add: Let_def)

lemma lead_byte: "128 \<le> (l::nat) \<Longrightarrow> l < 256 \<Longrightarrow> (192 + l div 64) div 16 = 12"
proof -
  assume "128 \<le> l" and "l < 256"
  then have "2 \<le> l div 64" and "l div 64 < 4" by simp_all
  then have "l div 64 = 2 \<or> l div 64 = 3" by linarith
  then show ?thesis by auto
qed

lemma charHex_inj:
  assumes "charHex x @ r1 = charHex y @ r2"
  shows "x = y \<and> r1 = r2"
proof -
  define k where "k = (of_char x :: nat)"
  define l where "l = (of_char y :: nat)"
  have kl: "k < 256" "l < 256" by (simp_all add: k_def l_def of_char_less_256)
  have "k = l \<and> r1 = r2"
  proof (cases "k < 128")
    case k: True
    show ?thesis
    proof (cases "l < 128")
      case True
      from k have cx: "charHex x = byteHex k" unfolding k_def by (rule charHex_ascii)
      from True have cy: "charHex y = byteHex l" unfolding l_def by (rule charHex_ascii)
      from assms have "byteHex k @ r1 = byteHex l @ r2"
        unfolding cx cy .
      then have "byteHex k = byteHex l" and "r1 = r2" by simp_all
      with kl show ?thesis by (simp add: byteHex_inj)
    next
      case False
      from k have cx: "charHex x = byteHex k" unfolding k_def by (rule charHex_ascii)
      from False have cy: "charHex y = byteHex (192 + l div 64) @ byteHex (128 + l mod 64)"
        unfolding l_def by (rule charHex_latin)
      from assms have
        "byteHex k @ r1 = byteHex (192 + l div 64) @ byteHex (128 + l mod 64) @ r2"
        unfolding cx cy by simp
      then have "hexDigit (k div 16) = hexDigit ((192 + l div 64) div 16)" by simp
      then have "(k div 16) mod 16 = ((192 + l div 64) div 16) mod 16"
        by (rule hexDigit_inj)
      moreover from False kl have "(192 + l div 64) div 16 = 12" by (simp add: lead_byte)
      moreover from k have "k div 16 < 8" by simp
      ultimately show ?thesis by simp
    qed
  next
    case k: False
    show ?thesis
    proof (cases "l < 128")
      case True
      from k have cx: "charHex x = byteHex (192 + k div 64) @ byteHex (128 + k mod 64)"
        unfolding k_def by (rule charHex_latin)
      from True have cy: "charHex y = byteHex l" unfolding l_def by (rule charHex_ascii)
      from assms have
        "byteHex (192 + k div 64) @ byteHex (128 + k mod 64) @ r1 = byteHex l @ r2"
        unfolding cx cy by simp
      then have "hexDigit ((192 + k div 64) div 16) = hexDigit (l div 16)" by simp
      then have "((192 + k div 64) div 16) mod 16 = (l div 16) mod 16"
        by (rule hexDigit_inj)
      moreover from k kl have "(192 + k div 64) div 16 = 12" by (simp add: lead_byte)
      moreover from True have "l div 16 < 8" by simp
      ultimately show ?thesis by simp
    next
      case False
      from k have cx: "charHex x = byteHex (192 + k div 64) @ byteHex (128 + k mod 64)"
        unfolding k_def by (rule charHex_latin)
      from False have cy: "charHex y = byteHex (192 + l div 64) @ byteHex (128 + l mod 64)"
        unfolding l_def by (rule charHex_latin)
      from assms have
        "byteHex (192 + k div 64) @ byteHex (128 + k mod 64) @ r1 =
         byteHex (192 + l div 64) @ byteHex (128 + l mod 64) @ r2"
        unfolding cx cy by simp
      then have "byteHex (192 + k div 64) = byteHex (192 + l div 64)"
        and "byteHex (128 + k mod 64) = byteHex (128 + l mod 64)" and r: "r1 = r2"
        by simp_all
      moreover from kl have "192 + k div 64 < 256" "192 + l div 64 < 256"
        "128 + k mod 64 < 256" "128 + l mod 64 < 256" by simp_all
      ultimately have "192 + k div 64 = 192 + l div 64" and "128 + k mod 64 = 128 + l mod 64"
        by (simp_all only: byteHex_inj)
      then have "k div 64 = l div 64" and "k mod 64 = l mod 64" by simp_all
      then have "k = l" by (metis div_mult_mod_eq)
      with r show ?thesis by simp
    qed
  qed
  then show ?thesis by (simp add: k_def l_def)
qed

lemma charHex_not_Nil: "charHex c \<noteq> []"
  by (simp add: Let_def)

lemma bufferHex_inj: "bufferHex s = bufferHex t \<Longrightarrow> s = t"
proof (induction s arbitrary: t)
  case Nil
  show ?case
  proof (cases t)
    case Nil then show ?thesis by simp
  next
    case (Cons y ys)
    with Nil.prems charHex_not_Nil [of y] show ?thesis
      by (simp add: bufferHex_Nil bufferHex_Cons del: charHex.simps)
  qed
next
  case (Cons x xs)
  show ?case
  proof (cases t)
    case Nil
    with Cons.prems charHex_not_Nil [of x] show ?thesis
      by (simp add: bufferHex_Nil bufferHex_Cons del: charHex.simps)
  next
    case t: (Cons y ys)
    with Cons.prems have "charHex x @ bufferHex xs = charHex y @ bufferHex ys"
      by (simp only: bufferHex_Cons)
    then have "x = y \<and> bufferHex xs = bufferHex ys" by (rule charHex_inj)
    with Cons.IH t show ?thesis by simp
  qed
qed

lemma decDigit_value: "of_char (decDigit d) = 48 + d mod 10"
proof -
  have "\<forall>i \<in> set [0..<10]. (of_char (''0123456789'' ! i) :: nat) = 48 + i"
    by code_simp
  moreover have "d mod 10 \<in> set [0..<10]" by simp
  ultimately show ?thesis unfolding decDigit_def by blast
qed

lemma decimal_value:
  "foldl (\<lambda>a c. 10 * a + (of_char c - 48)) a0 (natToString10 n) =
   10 ^ length (natToString10 n) * a0 + n"
proof (induction n arbitrary: a0 rule: natToString10.induct)
  case (1 n)
  show ?case
  proof (cases "n < 10")
    case True
    then have "natToString10 n = [decDigit n]"
      by (subst natToString10.simps) simp
    with True show ?thesis by (simp add: decDigit_value)
  next
    case False
    then have unfold: "natToString10 n = natToString10 (n div 10) @ [decDigit (n mod 10)]"
      by (subst natToString10.simps) simp
    have "foldl (\<lambda>a c. 10 * a + (of_char c - 48)) a0 (natToString10 n) =
        10 * (10 ^ length (natToString10 (n div 10)) * a0 + n div 10) + n mod 10"
      unfolding unfold using "1.IH" [OF False] by (simp add: decDigit_value)
    also have "\<dots> = 10 ^ length (natToString10 n) * a0 + n"
      unfolding unfold by (simp add: algebra_simps)
    finally show ?thesis .
  qed
qed

lemma natToString10_inj:
  assumes "natToString10 n = natToString10 m"
  shows "n = m"
proof -
  have "n = foldl (\<lambda>a c. 10 * a + (of_char c - 48)) 0 (natToString10 n)"
    by (simp add: decimal_value)
  also have "\<dots> = foldl (\<lambda>a c. 10 * a + (of_char c - 48)) 0 (natToString10 m)"
    by (simp only: assms)
  also have "\<dots> = m"
    by (simp add: decimal_value)
  finally show ?thesis .
qed

lemma stringifyProofData_Inr:
  assumes "stringifyProofData b t = Inr j"
  shows "\<exists>p. \<forall>t'. stringifyProofData b t' = Inr (p @ natToString10 t' @ ''}'')"
proof (cases "jsonEntries (inputs b)")
  case (Inl e)
  with assms show ?thesis by (simp add: stringifyProofData.simps)
next
  case (Inr js)
  define p where "p = ''{'' @ jsonString ''contractAddress'' @ '':'' @ jsonString (contractAddress b) @
               '','' @ jsonString ''userAddress'' @ '':'' @ jsonString (userAddress b) @
               '','' @ jsonString ''inputs'' @ '':['' @ joinComma js @ '']'' @
               '','' @ jsonString ''timestamp'' @ '':''"
  have "\<forall>t'. stringifyProofData b t' = Inr (p @ natToString10 t' @ ''}'')"
    using Inr by (simp add: p_def stringifyProofData.simps)
  then show ?thesis ..
qed

lemma encrypt_twice_aux:
  assumes "encrypt b t1 = Inr r1" and "encrypt b t2 = Inr r2"
  shows "handles r1 = handles r2 \<and> (inputProof r1 = inputProof r2 \<longleftrightarrow> t1 = t2)"
proof -
  from encrypt_Inr [OF assms(1)] obtain j1 where j1: "stringifyProofData b t1 = Inr j1"
    and r1: "r1 = \<lparr> handles = pushHandles [] (inputs b), inputProof = ''0x'' @ bufferHex j1 \<rparr>"
    by blast
  from encrypt_Inr [OF assms(2)] obtain j2 where j2: "stringifyProofData b t2 = Inr j2"
    and r2: "r2 = \<lparr> handles = pushHandles [] (inputs b), inputProof = ''0x'' @ bufferHex j2 \<rparr>"
    by blast
  from stringifyProofData_Inr [OF j1] obtain p
    where p: "\<And>t'. stringifyProofData b t' = Inr (p @ natToString10 t' @ ''}'')"
    by blast
  from j1 p [of t1] have e1: "j1 = p @ natToString10 t1 @ ''}''" by simp
  from j2 p [of t2] have e2: "j2 = p @ natToString10 t2 @ ''}''" by simp
  have h: "handles r1 = handles r2" by (simp add: r1 r2)
  have "t1 = t2" if "inputProof r1 = inputProof r2"
  proof -
    from that have "bufferHex j1 = bufferHex j2" by (simp add: r1 r2)
    then have "j1 = j2" by (rule bufferHex_inj)
    then have "natToString10 t1 = natToString10 t2" by (simp add: e1 e2)
    then show ?thesis by (rule natToString10_inj)
  qed
  moreover have "inputProof r1 = inputProof r2" if "t1 = t2"
    using that by (simp add: r1 r2 e1 e2)
  ultimately show ?thesis using h by blast
qed


text \<open>
  Claim C3 asks that two invocations of \<open>encrypt()\<close> on one builder state return the
  same handles and the same \<open>inputProof\<close>. After \<open>add32(7)\<close>, an invocation at clock
  reading 0 and one at clock reading 1 both return, with different proofs.
\<close>

theorem C3_encrypt_twice_counterexample:
  "\<not> isl (encrypt (add32 (createEncryptedInput inst0 ''0xab'' ''0xcd'') 7) 0) \<and>
   \<not> isl (encrypt (add32 (createEncryptedInput inst0 ''0xab'' ''0xcd'') 7) 1) \<and>
   inputProof (projr (encrypt (add32 (createEncryptedInput inst0 ''0xab'' ''0xcd'') 7) 0)) \<noteq>
   inputProof (projr (encrypt (add32 (createEncryptedInput inst0 ''0xab'' ''0xcd'') 7) 1))"
  by (simp add: encrypt.simps stringifyProofData.simps bufferHex.simps jsonString.simps
      natToString10.simps [of 0] natToString10.simps [of "Suc 0"] natToString10.simps [of 7]
      decDigit_def hexDigit_def)

text \<open>
  Claim C3, amended: whenever two invocations of \<open>encrypt()\<close> on one builder state
  return, they return the same handles; the proof blob serialises the reading of the
  clock, so the two proofs are equal exactly when both invocations read the same
  \<open>Date.now()\<close>.
\<close>

theorem C3_encrypt_twice:
  assumes "encrypt b t1 = Inr r1" and "encrypt b t2 = Inr r2"
  shows "handles r1 = handles r2 \<and> (inputProof r1 = inputProof r2 \<longleftrightarrow> t1 = t2)"
  using assms by (rule encrypt_twice_aux)

theorem C3_encrypt_twice_witness:
  "\<exists>r1 r2. encrypt (add32 (createEncryptedInput inst0 ''0xab'' ''0xcd'') 7) 0 = Inr r1 \<and>
     encrypt (add32 (createEncryptedInput inst0 ''0xab'' ''0xcd'') 7) 1 = Inr r2 \<and>
     handles r1 = handles r2 \<and> inputProof r1 \<noteq> inputProof r2"
proof -
  obtain r1 where r1: "encrypt (add32 (createEncryptedInput inst0 ''0xab'' ''0xcd'') 7) 0 = Inr r1"
    by (simp add: encrypt.simps stringifyProofData.simps)
  obtain r2 where r2: "encrypt (add32 (createEncryptedInput inst0 ''0xab'' ''0xcd'') 7) 1 = Inr r2"
    by (simp add: encrypt.simps stringifyProofData.simps)
  from C3_encrypt_twice [OF r1 r2] have "handles r1 = handles r2 \<and> inputProof r1 \<noteq> inputProof r2"
    by simp
  with r1 r2 show ?thesis by blast
qed

section \<open>Properties of the SDK validator\<close>

text \<open>
  Claim C4 asks that the validator accept exactly the non-null objects that expose
  \<open>initSDK\<close> or \<open>createInstance\<close> or at least three callable members, and that it
  reject an object with a single callable member of another name. The object
  \<open>{ foo: function }\<close> has one callable member, is below that bar, and is accepted.
\<close>

theorem C4_validator_counterexample:
  "isValidRelayerSDK (JObject [(''foo'', JFunction)]) \<and>
   \<not> specMinimumBar (JObject [(''foo'', JFunction)]) \<and>
   callableMembers (JObject [(''foo'', JFunction)]) = [''foo'']"
  by (simp add: isValidRelayerSDK.simps specMinimumBar_def)

lemma isValidRelayerSDK_iff:
  "isValidRelayerSDK c = (isNonNullObject c \<and> callableMembers c \<noteq> [])"
proof (cases c)
  case (JObject ps)
  show ?thesis
  proof (cases "callableMembers c = []")
    case True
    with JObject show ?thesis by (simp add: isValidRelayerSDK.simps Let_def)
  next
    case False
    then have "getOwnPropertyNames c \<noteq> []" by auto
    with False JObject show ?thesis by (simp add: isValidRelayerSDK.simps Let_def)
  qed
qed (simp_all add: isValidRelayerSDK.simps)

text \<open>Every candidate at or above the bar of the specification is accepted.\<close>

lemma specMinimumBar_accepted: "specMinimumBar c \<Longrightarrow> isValidRelayerSDK c"
proof -
  assume b: "specMinimumBar c"
  then have "isNonNullObject c" by (simp add: specMinimumBar_def)
  moreover from b have "callableMembers c \<noteq> []"
    unfolding specMinimumBar_def by (auto simp del: callableMembers.simps)
  ultimately show ?thesis by (simp only: isValidRelayerSDK_iff) simp
qed

text \<open>
  Claim C4, amended: the validator accepts a candidate if and only if it is a non-null
  object with at least one own property whose value is a function, whatever its name.
\<close>

theorem C4_validator: "isValidRelayerSDK c = (isNonNullObject c \<and> callableMembers c \<noteq> [])"
  by (rule isValidRelayerSDK_iff)

section \<open>Properties of the mock-backend probe\<close>

lemma prefixedString_eq:
  "(typeof a = ''string'' \<and> startsWithVal a ''0x'') = prefixedString a"
  by (cases a) simp_all

lemma fieldCheck:
  "(hasOwn f (JObject ps) \<and> typeof (getProp (JObject ps) f) = ''string'' \<and>
    startsWithVal (getProp (JObject ps) f) ''0x'') = prefixedString (getProp (JObject ps) f)"
proof (cases "map_of ps f")
  case None
  then show ?thesis by simp
next
  case (Some a)
  with prefixedString_eq [of a] show ?thesis by simp
qed

lemma fieldsLoop_accepted:
  "isNonNullObject m \<Longrightarrow> fieldsLoop m requiredFields = acceptedMetadata m"
proof (cases m)
  case (JObject ps)
  assume "isNonNullObject m"
  show ?thesis
    unfolding JObject acceptedMetadata_def requiredFields_def
    using fieldCheck [of "''ACLAddress''" ps] fieldCheck [of "''InputVerifierAddress''" ps]
      fieldCheck [of "''KMSVerifierAddress''" ps]
    by (auto simp del: hasOwn.simps getProp.simps startsWithVal.simps prefixedString.simps)
qed simp_all

lemma object_checks: "(truthyVal m \<and> typeof m = ''object'') = isNonNullObject m"
  by (cases m) auto

lemma hardhat_version: "versionIsHardhat (JString ''HardhatNetwork/2.22.0/@nomicfoundation/ethereumjs-vm'')"
  by code_simp

lemma geth_version: "\<not> includesStr (toLowerCase ''Geth/v1.13.14-stable/linux-amd64/go1.21.7'') ''hardhat''"
  by code_simp

text \<open>
  Claim C5 asks that the probe return absent whenever one of the three addresses is
  missing, not a string, or not \<open>0x\<close> followed by 40 hexadecimal digits. A Hardhat
  node that reports the addresses \<open>0x12\<close>, \<open>0x\<close> and \<open>0xzz\<close> gets its metadata
  returned: the loop tests \<open>startsWith("0x")\<close> and nothing more.
\<close>

theorem C5_probe_counterexample:
  "\<not> isValidAddress (JString ''0x12'') \<and>
   tryFetchFHEVMHardhatNodeRelayerMetadata (\<lambda>url. hardhatNode shortMetadata) ''http://localhost:8545''
     = Inr (Some shortMetadata)"
  by (simp add: tryFetchFHEVMHardhatNodeRelayerMetadata.simps hardhatNode_def shortMetadata_def
      requiredFields_def hardhat_version del: versionIsHardhat.simps)

text \<open>
  Claim C5, amended: on a node whose client version names Hardhat, the probe returns
  absent, never an error, when the metadata query fails or when the response is not an
  object or one of \<open>ACLAddress\<close>, \<open>InputVerifierAddress\<close>, \<open>KMSVerifierAddress\<close> is
  missing, not a string, or does not start with \<open>0x\<close>; any other response is returned
  as the metadata, whatever the length and the digits of its addresses.
\<close>

theorem C5_probe_metadata:
  assumes "clientVersion (net url) = Inr version" and "versionIsHardhat version"
  shows "tryFetchFHEVMHardhatNodeRelayerMetadata net url =
     Inr (case relayerMetadata (net url) of
            Inl e \<Rightarrow> None
          | Inr m \<Rightarrow> if acceptedMetadata m then Some m else None)"
proof (cases "relayerMetadata (net url)")
  case (Inl e)
  with assms show ?thesis by (simp add: tryFetchFHEVMHardhatNodeRelayerMetadata.simps)
next
  case (Inr m)
  show ?thesis
  proof (cases "isNonNullObject m")
    case True
    with Inr assms fieldsLoop_accepted [OF True] object_checks [of m] show ?thesis
      by (simp add: tryFetchFHEVMHardhatNodeRelayerMetadata.simps)
  next
    case False
    with Inr assms object_checks [of m] show ?thesis
      by (auto simp add: tryFetchFHEVMHardhatNodeRelayerMetadata.simps acceptedMetadata_def)
  qed
qed

theorem C5_probe_metadata_witness:
  "clientVersion (hardhatNode shortMetadata) =
     Inr (JString ''HardhatNetwork/2.22.0/@nomicfoundation/ethereumjs-vm'') \<and>
   versionIsHardhat (JString ''HardhatNetwork/2.22.0/@nomicfoundation/ethereumjs-vm'') \<and>
   acceptedMetadata shortMetadata \<and>
   tryFetchFHEVMHardhatNodeRelayerMetadata (\<lambda>url. hardhatNode shortMetadata) ''http://localhost:8545''
     = Inr (Some shortMetadata)"
proof -
  have v: "clientVersion ((\<lambda>url. hardhatNode shortMetadata) ''http://localhost:8545'') =
      Inr (JString ''HardhatNetwork/2.22.0/@nomicfoundation/ethereumjs-vm'')"
    by (simp add: hardhatNode_def)
  have a: "acceptedMetadata shortMetadata"
    by (simp add: acceptedMetadata_def shortMetadata_def)
  from C5_probe_metadata [OF v hardhat_version] a v hardhat_version show ?thesis
    by (simp add: hardhatNode_def)
qed

text \<open>
  Claim C6: when the client-version query succeeds with a string that does not contain
  the marker (\<open>hardhat\<close>, compared in lower case), the probe returns absent and throws
  nothing.
\<close>

theorem C6_probe_not_hardhat:
  assumes "clientVersion (net url) = Inr (JString version)"
    and "\<not> includesStr (toLowerCase version) ''hardhat''"
  shows "tryFetchFHEVMHardhatNodeRelayerMetadata net url = Inr None"
  using assms by (simp add: tryFetchFHEVMHardhatNodeRelayerMetadata.simps)

theorem C6_probe_not_hardhat_witness:
  "clientVersion gethNode = Inr (JString ''Geth/v1.13.14-stable/linux-amd64/go1.21.7'') \<and>
   \<not> includesStr (toLowerCase ''Geth/v1.13.14-stable/linux-amd64/go1.21.7'') ''hardhat'' \<and>
   tryFetchFHEVMHardhatNodeRelayerMetadata (\<lambda>url. gethNode) ''http://localhost:8545'' = Inr None"
proof -
  have v: "clientVersion ((\<lambda>url. gethNode) ''http://localhost:8545'') =
      Inr (JString ''Geth/v1.13.14-stable/linux-amd64/go1.21.7'')"
    by (simp add: gethNode_def)
  from C6_probe_not_hardhat [OF v geth_version] v geth_version show ?thesis by simp
qed

section \<open>Properties of network resolution\<close>

lemma merged_dom:
  "(defaultMockChains ++ orEmpty mc) c \<noteq> None \<longleftrightarrow> c = Num 31337 \<or> c \<in> dom (orEmpty mc)"
  by (auto simp add: defaultMockChains_def map_add_def split: option.splits)

text \<open>
  Claim C7 asks, among other things, that a caller-supplied entry for a default chain
  id replace the RPC URL. When the provider is itself a URL string, that string is the
  URL returned and the table is not read: for chain 31337 reached at
  \<open>http://10.0.0.5:8545\<close>, with the caller's entry \<open>http://127.0.0.1:8545\<close> for 31337,
  \<open>resolve\<close> returns the URL of the provider.
\<close>

theorem C7_resolve_counterexample:
  "override0 (Num 31337) = Some ''http://127.0.0.1:8545'' \<and>
   resolve (\<lambda>url. hardhatNode metadata0) (ProviderUrl ''http://10.0.0.5:8545'') (Some override0) =
     Inr \<lparr> isMock = True, chainId = Num 31337, rpcUrl = Some ''http://10.0.0.5:8545'' \<rparr>"
proof -
  have c: "getChainId (\<lambda>url. hardhatNode metadata0) (ProviderUrl ''http://10.0.0.5:8545'') =
      Inr (Num 31337)"
    by (simp add: hardhatNode_def)
  have t: "(defaultMockChains ++ orEmpty (Some override0)) (Num 31337) =
      Some ''http://127.0.0.1:8545''"
    by (simp add: override0_def)
  have "resolve (\<lambda>url. hardhatNode metadata0) (ProviderUrl ''http://10.0.0.5:8545'') (Some override0) =
     Inr \<lparr> isMock = True, chainId = Num 31337, rpcUrl = Some ''http://10.0.0.5:8545'' \<rparr>"
    by (simp only: resolve.simps c t sum.case Let_def option.case) simp
  then show ?thesis by (simp add: override0_def)
qed

text \<open>
  Claim C7, amended: once the chain id \<open>c\<close> is known, \<open>resolve\<close> returns a descriptor
  for \<open>c\<close> and throws nothing. The chain is a mock chain exactly when \<open>c\<close> is 31337 or
  a key of the caller's table; 31337 is a mock chain whatever the caller supplies. The
  URL of a provider that is a non-empty URL string always takes precedence: it is the
  URL returned for a mock chain, whatever the tables hold. Only where the provider
  gives no URL (or the empty string) is the table read: then the caller's entry for
  \<open>c\<close> is the URL returned, also for 31337, and the default URL for 31337 when the
  caller has no entry for it. A chain in neither table comes back with \<open>isMock\<close> false
  and the URL of the provider.
\<close>

theorem C7_resolve:
  assumes "getChainId net p = Inr c"
  shows "\<exists>r. resolve net p mc = Inr r \<and> chainId r = c \<and>
           (isMock r \<longleftrightarrow> c = Num 31337 \<or> c \<in> dom (orEmpty mc)) \<and>
           (c = Num 31337 \<longrightarrow> isMock r) \<and>
           (isMock r \<and> \<not> falsyUrl (providerUrl p) \<longrightarrow> rpcUrl r = providerUrl p) \<and>
           (\<forall>u. orEmpty mc c = Some u \<and> falsyUrl (providerUrl p) \<longrightarrow> rpcUrl r = Some u) \<and>
           (c = Num 31337 \<and> orEmpty mc c = None \<and> falsyUrl (providerUrl p) \<longrightarrow>
              rpcUrl r = Some ''http://localhost:8545'') \<and>
           (c \<noteq> Num 31337 \<and> c \<notin> dom (orEmpty mc) \<longrightarrow>
              r = \<lparr> isMock = False, chainId = c, rpcUrl = providerUrl p \<rparr>)"
proof (cases "(defaultMockChains ++ orEmpty mc) c")
  case None
  with merged_dom [of mc c] have n: "c \<noteq> Num 31337" "c \<notin> dom (orEmpty mc)" by simp_all
  have "resolve net p mc = Inr \<lparr> isMock = False, chainId = c, rpcUrl = providerUrl p \<rparr>"
    by (simp only: resolve.simps assms None sum.case Let_def option.case)
  with n show ?thesis by auto
next
  case (Some entry)
  with merged_dom [of mc c] have m: "c = Num 31337 \<or> c \<in> dom (orEmpty mc)" by simp
  have e: "orEmpty mc c = Some u \<Longrightarrow> entry = u" for u
    using Some by (simp add: map_add_def)
  have d: "c = Num 31337 \<Longrightarrow> orEmpty mc c = None \<Longrightarrow> entry = ''http://localhost:8545''"
    using Some by (simp add: map_add_def defaultMockChains_def)
  have "resolve net p mc = Inr \<lparr> isMock = True, chainId = c,
      rpcUrl = (if falsyUrl (providerUrl p) then Some entry else providerUrl p) \<rparr>"
    by (simp only: resolve.simps assms Some sum.case Let_def option.case)
  with m e d show ?thesis by auto
qed

theorem C7_resolve_witness:
  "getChainId (\<lambda>url. hardhatNode metadata0) (Eip1193 (Inr ''0x7a69'')) = Inr (Num 31337) \<and>
   resolve (\<lambda>url. hardhatNode metadata0) (Eip1193 (Inr ''0x7a69'')) (Some override0) =
     Inr \<lparr> isMock = True, chainId = Num 31337, rpcUrl = Some ''http://127.0.0.1:8545'' \<rparr>"
proof -
  have c: "getChainId (\<lambda>url. hardhatNode metadata0) (Eip1193 (Inr ''0x7a69'')) = Inr (Num 31337)"
    by code_simp
  have o: "orEmpty (Some override0) (Num 31337) = Some ''http://127.0.0.1:8545''"
    by (simp add: override0_def)
  from C7_resolve [OF c, of "Some override0"] obtain r where
    r: "resolve (\<lambda>url. hardhatNode metadata0) (Eip1193 (Inr ''0x7a69'')) (Some override0) = Inr r"
    and "chainId r = Num 31337" and "isMock r"
    and "\<forall>u. orEmpty (Some override0) (Num 31337) = Some u \<and>
          falsyUrl (providerUrl (Eip1193 (Inr ''0x7a69''))) \<longrightarrow> rpcUrl r = Some u"
    by blast
  with o have "r = \<lparr> isMock = True, chainId = Num 31337, rpcUrl = Some ''http://127.0.0.1:8545'' \<rparr>"
    by simp
  with r c show ?thesis by simp
qed

section \<open>Properties of instance creation\<close>

lemma mockBranch_no_metadata:
  assumes "\<And>md. tryFetchFHEVMHardhatNodeRelayerMetadata net url \<noteq> Inr (Some md)"
  shows "mockBranch net signal c url = Inr None \<or> (\<exists>e. mockBranch net signal c url = Inl e)"
proof (cases "tryFetchFHEVMHardhatNodeRelayerMetadata net url")
  case (Inl e)
  then show ?thesis by (simp add: mockBranch.simps)
next
  case (Inr m)
  with assms have "m = None" by (cases m) auto
  with Inr show ?thesis by (simp add: mockBranch.simps)
qed

lemma chain1: "getChainId (\<lambda>url. gethNode) (Eip1193 (Inr ''0x1'')) = Inr (Num 1)"
  by code_simp

lemma resolve1:
  "resolve (\<lambda>url. gethNode) (Eip1193 (Inr ''0x1'')) None =
     Inr \<lparr> isMock = False, chainId = Num 1, rpcUrl = None \<rparr>"
  by (simp only: resolve.simps chain1 sum.case Let_def)
     (simp add: defaultMockChains_def)

text \<open>
  Claim C10 asks that instance creation fail with the unsupported-network error for
  every chain that is neither a mock chain with metadata nor Sepolia. For chain 1 and a
  signal that is already aborted when \<open>resolve\<close> returns, it fails with the abort error.
\<close>

theorem C10_unsupported_network_counterexample:
  "createFhevmInstance (\<lambda>url. gethNode) sdkWorld0 (Eip1193 (Inr ''0x1'')) None (\<lambda>p. True) =
     Inl (FhevmAbortError ''FHEVM operation was cancelled'')"
  by (simp add: createFhevmInstance.simps resolve1 abortError_def)

text \<open>
  Claim C10, amended: when \<open>resolve\<close> returns a chain that is not Sepolia and for which
  the mock branch finds no metadata (the chain is not in the mock table, or has no URL,
  or the probe at its URL throws or returns absent), \<open>createFhevmInstance\<close> fails: with
  the error \<open>Unsupported network: chainId=...\<close> when the signal is not aborted after
  \<open>resolve\<close>, with the abort error when it is. It never returns an instance and makes
  no second attempt.
\<close>

theorem C10_unsupported_network:
  assumes "resolve net p mc = Inr r"
    and "chainId r \<noteq> sepoliaChainId"
    and "\<not> (isMock r \<and> (\<exists>url md. rpcUrl r = Some url \<and> url \<noteq> [] \<and>
              tryFetchFHEVMHardhatNodeRelayerMetadata net url = Inr (Some md)))"
  shows "createFhevmInstance net w p mc signal =
     Inl (if signal AfterResolve then abortError
          else Error (''Unsupported network: chainId='' @ numberToString (chainId r)))"
proof (cases "signal AfterResolve")
  case True
  with assms(1) show ?thesis by (simp add: createFhevmInstance.simps)
next
  case False
  have after: "afterMockBranch w signal (chainId r) =
      Inl (Error (''Unsupported network: chainId='' @ numberToString (chainId r)))"
    using assms(2) by simp
  have start: "createFhevmInstance net w p mc signal =
      (if isMock r \<and> \<not> falsyUrl (rpcUrl r)
       then (case rpcUrl r of
               None \<Rightarrow> afterMockBranch w signal (chainId r)
             | Some url \<Rightarrow>
                 (case mockBranch net signal (chainId r) url of
                    Inr (Some mockInstance) \<Rightarrow> Inr mockInstance
                  | Inr None \<Rightarrow> afterMockBranch w signal (chainId r)
                  | Inl e \<Rightarrow> afterMockBranch w signal (chainId r)))
       else afterMockBranch w signal (chainId r))"
    using False
    by (simp only: createFhevmInstance.simps assms(1) thenE.simps throwIfAborted.simps if_False)
  show ?thesis
  proof (cases "isMock r \<and> \<not> falsyUrl (rpcUrl r)")
    case no: False
    then have "createFhevmInstance net w p mc signal = afterMockBranch w signal (chainId r)"
      unfolding start by (rule if_not_P)
    with False after show ?thesis by simp
  next
    case True
    then obtain url where url: "rpcUrl r = Some url" "url \<noteq> []"
      by (cases "rpcUrl r") auto
    with True assms(3) have "\<And>md. tryFetchFHEVMHardhatNodeRelayerMetadata net url \<noteq> Inr (Some md)"
      by blast
    from mockBranch_no_metadata [OF this, of signal "chainId r"]
    have "(case mockBranch net signal (chainId r) url of
             Inr (Some mockInstance) \<Rightarrow> Inr mockInstance
           | Inr None \<Rightarrow> afterMockBranch w signal (chainId r)
           | Inl e \<Rightarrow> afterMockBranch w signal (chainId r)) = afterMockBranch w signal (chainId r)"
      by auto
    moreover from True have "createFhevmInstance net w p mc signal =
        (case rpcUrl r of
               None \<Rightarrow> afterMockBranch w signal (chainId r)
             | Some url \<Rightarrow>
                 (case mockBranch net signal (chainId r) url of
                    Inr (Some mockInstance) \<Rightarrow> Inr mockInstance
                  | Inr None \<Rightarrow> afterMockBranch w signal (chainId r)
                  | Inl e \<Rightarrow> afterMockBranch w signal (chainId r)))"
      unfolding start by (rule if_P)
    ultimately have "createFhevmInstance net w p mc signal = afterMockBranch w signal (chainId r)"
      by (simp only: url option.case)
    with False after show ?thesis by simp
  qed
qed

theorem C10_unsupported_network_witness:
  "resolve (\<lambda>url. gethNode) (Eip1193 (Inr ''0x1'')) None =
     Inr \<lparr> isMock = False, chainId = Num 1, rpcUrl = None \<rparr> \<and>
   Num 1 \<noteq> sepoliaChainId \<and>
   createFhevmInstance (\<lambda>url. gethNode) sdkWorld0 (Eip1193 (Inr ''0x1'')) None (\<lambda>p. False) =
     Inl (Error ''Unsupported network: chainId=1'')"
proof -
  have s: "chainId \<lparr> isMock = False, chainId = Num 1, rpcUrl = None \<rparr> \<noteq> sepoliaChainId"
    by (simp add: sepoliaChainId_def)
  have m: "\<not> (isMock \<lparr> isMock = False, chainId = Num 1, rpcUrl = None \<rparr> \<and>
      (\<exists>url md. rpcUrl \<lparr> isMock = False, chainId = Num 1, rpcUrl = None \<rparr> = Some url \<and> url \<noteq> [] \<and>
          tryFetchFHEVMHardhatNodeRelayerMetadata (\<lambda>url. gethNode) url = Inr (Some md)))"
    by simp
  have d: "natToString10 1 = ''1''" by code_simp
  from C10_unsupported_network [OF resolve1 s m, of sdkWorld0 "\<lambda>p. False"] resolve1 s d
  show ?thesis by (simp add: sepoliaChainId_def)
qed

section \<open>Properties of the SDK loader\<close>

text \<open>No event touches \<open>_loadPromise\<close> or appends a script element.\<close>

lemma settle_frame [simp]:
  "loadPromise (settle p st w) = loadPromise w" "fetches (settle p st w) = fetches w"
  by (simp_all add: settle.simps)

lemma step_frame: "loadPromise (step e w) = loadPromise w \<and> fetches (step e w) = fetches w"
  by (cases e) (simp_all add: step.simps)

lemma run_frame: "loadPromise (run es w) = loadPromise w \<and> fetches (run es w) = fetches w"
  by (induction es arbitrary: w) (simp_all add: step_frame)

lemma load_joined: "loadPromise w = Some p \<Longrightarrow> load w = (p, w)"
  by (simp add: load.simps)

lemma performLoad_result:
  "performLoad w = (length (promises w),
     snd (performLoad w)) \<and> promises (snd (performLoad w)) = promises w @ [Pending] \<and>
   loadPromise (snd (performLoad w)) = loadPromise w \<and>
   fetches (snd (performLoad w)) = fetches w + (if 0 < scriptTags w then 0 else 1)"
  by (simp add: performLoad.simps)

lemma load_first:
  assumes "loadPromise w = None" and "load w = (p, w1)" and "promises w1 ! p = Pending"
  shows "loadPromise w1 = Some p \<and>
         fetches w1 = fetches w + (if windowSDK w = None \<and> 0 < scriptTags w then 0 else 1)"
proof (cases "hasWindow w")
  case False
  with assms show ?thesis by (auto simp add: load.simps)
next
  case True
  show ?thesis
  proof (cases "windowSDK w")
    case None
    obtain q w' where pl: "performLoad w = (q, w')" by (cases "performLoad w")
    with performLoad_result [of w] have "loadPromise w' = loadPromise w"
      "fetches w' = fetches w + (if 0 < scriptTags w then 0 else 1)" by simp_all
    with None True assms pl show ?thesis by (auto simp add: load.simps)
  next
    case (Some sdk)
    show ?thesis
    proof (cases "isValidRelayerSDK sdk")
      case valid: True
      with Some True assms show ?thesis by (auto simp add: load.simps)
    next
      case False
      define w0 where "w0 = w\<lparr> windowSDK := (if sdkConfigurable w then None else Some sdk),
                            scriptTags := 0, loadPromise := None \<rparr>"
      obtain q w' where pl: "performLoad w0 = (q, w')" by (cases "performLoad w0")
      with performLoad_result [of w0] have "fetches w' = fetches w + 1"
        by (simp add: w0_def)
      with False Some True assms pl show ?thesis by (auto simp add: load.simps w0_def)
    qed
  qed
qed

text \<open>
  Claim C8 asks that two calls of \<open>load()\<close>, the second made while the first is
  pending, trigger exactly one CDN fetch. On a page that already holds a script element
  for the CDN URL and no \<open>window.relayerSDK\<close> (another loader object appended it), the
  first call returns a pending promise, the second returns the same promise, and no
  script element was appended: the two calls trigger no fetch.
\<close>

theorem C8_load_twice_counterexample:
  "load pageWithScript = (0, snd (load pageWithScript)) \<and>
   promises (snd (load pageWithScript)) ! 0 = Pending \<and>
   load (snd (load pageWithScript)) = (0, snd (load pageWithScript)) \<and>
   fetches (snd (load (snd (load pageWithScript)))) = 0"
  by (simp add: pageWithScript_def freshPage_def load.simps performLoad.simps)

text \<open>
  Claim C8, amended: when the first \<open>load()\<close> on a loader returns a pending promise,
  a second \<open>load()\<close>, after whatever timers and script events have occurred, returns
  the same promise and leaves the state as it is, so it starts no fetch; the two calls
  together trigger one fetch, or none when the first call found a script element for
  the CDN URL in the document and no \<open>window.relayerSDK\<close>.
\<close>

theorem C8_load_twice:
  assumes "loadPromise w = None" and "load w = (p, w1)" and "promises w1 ! p = Pending"
  shows "load (run es w1) = (p, run es w1) \<and>
         fetches (run es w1) = fetches w + (if windowSDK w = None \<and> 0 < scriptTags w then 0 else 1)"
proof -
  from load_first [OF assms] have "loadPromise w1 = Some p"
    and f: "fetches w1 = fetches w + (if windowSDK w = None \<and> 0 < scriptTags w then 0 else 1)"
    by simp_all
  with run_frame [of es w1] have "loadPromise (run es w1) = Some p"
    and "fetches (run es w1) = fetches w1" by simp_all
  with f load_joined show ?thesis by simp
qed

theorem C8_load_twice_witness:
  "loadPromise freshPage = None \<and>
   load freshPage = (0, snd (load freshPage)) \<and>
   promises (snd (load freshPage)) ! 0 = Pending \<and>
   load (run [ScriptOnload 0] (snd (load freshPage))) = (0, run [ScriptOnload 0] (snd (load freshPage))) \<and>
   fetches (run [ScriptOnload 0] (snd (load freshPage))) = 1"
proof -
  have a: "loadPromise freshPage = None" by (simp add: freshPage_def)
  have b: "load freshPage = (0, snd (load freshPage))"
    by (simp add: freshPage_def load.simps performLoad.simps)
  have c: "promises (snd (load freshPage)) ! 0 = Pending"
    by (simp add: freshPage_def load.simps performLoad.simps)
  from C8_load_twice [OF a b c, of "[ScriptOnload 0]"] a b c show ?thesis
    by (simp add: freshPage_def)
qed

section \<open>Properties of the lifecycle hook\<close>

text \<open>The callbacks of an attempt whose signal is aborted call no setter: neither a
  result nor an error of a cancelled attempt reaches the state.\<close>

lemma settleAttempt_aborted:
  assumes "i < length (attempts h)" and "fst (attempts h ! i) \<in> set (abortedSignals h)"
  shows "queued (settleAttempt i outcome h) = queued h"
  using assms by (simp add: settleAttempt.simps split_beta Let_def)

text \<open>\<open>refresh\<close> aborts the controller in the ref; an aborted signal stays aborted,
  and the attempts keep their places.\<close>

lemma refresh_aborts:
  assumes "abortControllerRef h = Some c"
  shows "c \<in> set (abortedSignals (refresh provider chain h))"
  using assms by (simp add: refresh.simps Let_def)

lemma refresh_keeps:
  "set (abortedSignals h) \<subseteq> set (abortedSignals (refresh provider chain h)) \<and>
   attempts (refresh provider chain h) = attempts h"
  by (auto simp add: refresh.simps Let_def split: option.splits)

lemma applyUpdate_keeps:
  "abortedSignals (applyUpdate h u) = abortedSignals h \<and> attempts (applyUpdate h u) = attempts h"
  by (cases u) simp_all

lemma foldl_applyUpdate_keeps:
  "abortedSignals (foldl applyUpdate h us) = abortedSignals h \<and>
   attempts (foldl applyUpdate h us) = attempts h"
  by (induction us arbitrary: h) (simp_all add: applyUpdate_keeps)

lemma mainEffect_keeps:
  assumes "mainEffect h = Inr h'"
  shows "set (abortedSignals h) \<subseteq> set (abortedSignals h') \<and>
         (\<exists>ys. attempts h' = attempts h @ ys)"
  using assms
  by (auto simp add: mainEffect.simps Let_def split: option.splits if_splits)

lemma render_keeps:
  assumes "render p h = Inr h'"
  shows "set (abortedSignals h) \<subseteq> set (abortedSignals h') \<and>
         (\<exists>ys. attempts h' = attempts h @ ys)"
proof -
  obtain provider chain enabled where p: "p = Props provider chain enabled" by (cases p)
  define h0 where "h0 = applyQueued h"
  define h1 where "h1 = (if lastRefreshDeps h0 \<noteq> Some (provider, chain)
                then refresh provider chain h0 else h0)"
  define h2 where "h2 = (if lastEnabled h0 \<noteq> Some enabled
                then enqueue [SetIsRunning enabled] h1 else h1)"
  define h3 where "h3 = h2\<lparr> lastRefreshDeps := Some (provider, chain), lastEnabled := Some enabled,
                    lastMainDeps := Some (isRunning h0, providerChanged h0) \<rparr>"
  have k0: "abortedSignals h0 = abortedSignals h" "attempts h0 = attempts h"
    by (simp_all add: h0_def foldl_applyUpdate_keeps)
  have k1: "set (abortedSignals h0) \<subseteq> set (abortedSignals h1)" "attempts h1 = attempts h0"
    using refresh_keeps [of h0 provider chain] by (simp_all add: h1_def)
  have k3: "abortedSignals h3 = abortedSignals h1" "attempts h3 = attempts h1"
    by (simp_all add: h3_def h2_def)
  have r: "render p h = (if lastMainDeps h0 \<noteq> Some (isRunning h0, providerChanged h0)
                          then mainEffect h3 else Inr h3)"
    unfolding p by (simp add: render.simps Let_def h0_def h1_def h2_def h3_def)
  show ?thesis
  proof (cases "lastMainDeps h0 \<noteq> Some (isRunning h0, providerChanged h0)")
    case True
    with r assms have "mainEffect h3 = Inr h'" by simp
    from mainEffect_keeps [OF this] k0 k1 k3 show ?thesis by auto
  next
    case False
    with r assms have "h' = h3" by simp
    with k0 k1 k3 show ?thesis by auto
  qed
qed

lemma hookStep_keeps:
  assumes "hookStep e h = Inr h'"
  shows "set (abortedSignals h) \<subseteq> set (abortedSignals h') \<and>
         (\<exists>ys. attempts h' = attempts h @ ys)"
proof (cases e)
  case (Render p)
  with assms render_keeps show ?thesis by simp
next
  case CallRefresh
  with assms refresh_keeps show ?thesis by (auto split: option.splits)
next
  case (Settle i outcome)
  with assms show ?thesis
    by (auto simp add: settleAttempt.simps Let_def split_beta split: sum.splits)
next
  case Unmount
  with assms show ?thesis by (auto split: option.splits)
qed

lemma runHook_keeps:
  assumes "runHook es h = Inr h'"
  shows "set (abortedSignals h) \<subseteq> set (abortedSignals h') \<and>
         (\<exists>ys. attempts h' = attempts h @ ys)"
  using assms
proof (induction es arbitrary: h)
  case Nil
  then show ?case by simp
next
  case (Cons e es)
  then obtain h1 where s: "hookStep e h = Inr h1" and r: "runHook es h1 = Inr h'"
    by (auto split: sum.splits)
  from hookStep_keeps [OF s] Cons.IH [OF r]
  have a: "set (abortedSignals h) \<subseteq> set (abortedSignals h')"
    and "\<exists>ys. attempts h1 = attempts h @ ys"
    and "\<exists>ys. attempts h' = attempts h1 @ ys"
    by auto
  then obtain ys zs where "attempts h' = attempts h @ (ys @ zs)" by auto
  with a show ?case by blast
qed

text \<open>
  So when \<open>refresh\<close> is invoked while the attempt \<open>i\<close> is the one of the controller
  in the ref, whatever happens afterwards, the outcome of \<open>i\<close> is discarded.
\<close>

lemma refresh_discards_attempt:
  assumes "i < length (attempts h)"
    and "abortControllerRef h = Some (fst (attempts h ! i))"
    and "runHook es (callRefresh h) = Inr h'"
    and "lastRefreshDeps h \<noteq> None"
  shows "queued (settleAttempt i outcome h') = queued h'"
proof -
  from assms(4) obtain provider chain where d: "lastRefreshDeps h = Some (provider, chain)"
    by auto
  then have c: "callRefresh h = refresh provider chain h" by simp
  from refresh_aborts [OF assms(2)] c
  have "fst (attempts h ! i) \<in> set (abortedSignals (callRefresh h))" by simp
  moreover from refresh_keeps [of h provider chain] c
  have "attempts (callRefresh h) = attempts h" by simp
  moreover note runHook_keeps [OF assms(3)]
  ultimately have m: "fst (attempts h ! i) \<in> set (abortedSignals h')"
    and "\<exists>ys. attempts h' = attempts h @ ys" by auto
  then obtain ys where t: "attempts h' = attempts h @ ys" by auto
  from t assms(1) have "attempts h' ! i = attempts h ! i"
    by (simp add: nth_append)
  moreover from t assms(1) have "i < length (attempts h')" by simp
  ultimately show ?thesis
    using m settleAttempt_aborted by simp
qed

text \<open>
  Claim C9 asks that, once an attempt B is started before an attempt A resolves, the
  outcome of A never reaches the state of the controller. Mounting the hook with a
  provider and \<open>enabled\<close> true starts two attempts: the first render runs \<open>refresh\<close>,
  which queues the increment of \<open>_providerChanged\<close>, and then the main effect, which
  makes controller 0 and starts attempt 0; the second render sees \<open>_providerChanged\<close>
  changed and runs the main effect again, which keeps controller 0, not aborted, and
  starts attempt 1 with the same signal. When attempt 0 then fails, its \<open>catch\<close>
  callback finds the signal not aborted and sets the error: after the next render the
  status is \<open>error\<close> with the error of attempt 0, while attempt 1 is still pending.
\<close>

theorem C9_mount_starts_two_attempts:
  "map_sum id (\<lambda>h. (observed h, attempts h, settledAttempts h, abortedSignals h))
     (runHook [Render props0, Render props0,
               Settle 0 (Inl (Error ''Failed to get chainId: timeout'')),
               Render props0] (initialHook props0)) =
   Inr ((None, StatusError, Some (Error ''Failed to get chainId: timeout'')),
        [(0, 0), (0, 0)], [0], [])"
  by (simp add: props0_def render.simps refresh.simps mainEffect.simps settleAttempt.simps)

end
